theory Spec2Isabelle
  imports Main "HOL-Library.Word"
begin

section \<open>Token types\<close>

text \<open>
  The token enumeration \<open>E_Token\<close> (token_enum.h) has about 170 members. The members that
  brace_cleanup.cpp names are listed here, grouped by role so that each group stays small;
  every source name \<open>CT_X\<close> is available as an abbreviation. \<open>M_OTHER n\<close> stands for any
  token kind that the pass never inspects by name.
\<close>

datatype (plugins only: code) bracket_token =
    B_PAREN_OPEN | B_PAREN_CLOSE | B_ANGLE_OPEN | B_ANGLE_CLOSE
  | B_SPAREN_OPEN | B_SPAREN_CLOSE | B_FPAREN_OPEN | B_FPAREN_CLOSE
  | B_BRACE_OPEN | B_BRACE_CLOSE | B_VBRACE_OPEN | B_VBRACE_CLOSE
  | B_SQUARE_OPEN | B_SQUARE_CLOSE | B_MACRO_OPEN | B_MACRO_CLOSE

datatype (plugins only: code) keyword_token =
    K_IF | K_ELSE | K_ELSEIF | K_CONSTEXPR | K_FOR | K_WHILE | K_WHILE_OF_DO | K_DO
  | K_SWITCH | K_CASE | K_DEFAULT | K_BREAK | K_CONTINUE | K_RETURN | K_GOTO | K_THROW
  | K_TRY | K_CATCH | K_FINALLY | K_WHEN | K_SYNCHRONIZED | K_LOCK
  | K_D_VERSION | K_D_VERSION_IF | K_D_SCOPE | K_D_SCOPE_IF
  | K_BODY | K_UNITTEST | K_UNSAFE | K_VOLATILE | K_GETSET
  | K_USING | K_USING_STMT | K_NAMESPACE

datatype (plugins only: code) operator_token =
    O_SEMICOLON | O_VSEMICOLON | O_COLON | O_COMMA | O_QUESTION
  | O_ASSIGN | O_ARITH | O_SHIFT | O_COMPARE | O_BOOL | O_STAR | O_PLUS | O_MINUS
  | O_CARET | O_NOT | O_INV

datatype (plugins only: code) misc_token =
    M_NONE | M_EOF | M_WORD | M_NUMBER | M_TYPE
  | M_NEWLINE | M_NL_CONT | M_COMMENT | M_COMMENT_MULTI | M_COMMENT_CPP
  | M_PREPROC | M_PREPROC_BODY | M_PP_DEFINE | M_PP_IF | M_PP_ELSE | M_PP_ENDIF
  | M_ATTRIBUTE | M_IGNORED | M_MACRO | M_FUNCTION | M_ENUM | M_DECLSPEC
  | M_AUTORELEASEPOOL | M_OC_END | M_OTHER nat

datatype (plugins only: code) E_Token =
    Bracket bracket_token | Keyword keyword_token | Operator operator_token | Misc misc_token

abbreviation CT_PAREN_OPEN :: E_Token where "CT_PAREN_OPEN \<equiv> Bracket B_PAREN_OPEN"
abbreviation CT_PAREN_CLOSE :: E_Token where "CT_PAREN_CLOSE \<equiv> Bracket B_PAREN_CLOSE"
abbreviation CT_ANGLE_OPEN :: E_Token where "CT_ANGLE_OPEN \<equiv> Bracket B_ANGLE_OPEN"
abbreviation CT_ANGLE_CLOSE :: E_Token where "CT_ANGLE_CLOSE \<equiv> Bracket B_ANGLE_CLOSE"
abbreviation CT_SPAREN_OPEN :: E_Token where "CT_SPAREN_OPEN \<equiv> Bracket B_SPAREN_OPEN"
abbreviation CT_SPAREN_CLOSE :: E_Token where "CT_SPAREN_CLOSE \<equiv> Bracket B_SPAREN_CLOSE"
abbreviation CT_FPAREN_OPEN :: E_Token where "CT_FPAREN_OPEN \<equiv> Bracket B_FPAREN_OPEN"
abbreviation CT_FPAREN_CLOSE :: E_Token where "CT_FPAREN_CLOSE \<equiv> Bracket B_FPAREN_CLOSE"
abbreviation CT_BRACE_OPEN :: E_Token where "CT_BRACE_OPEN \<equiv> Bracket B_BRACE_OPEN"
abbreviation CT_BRACE_CLOSE :: E_Token where "CT_BRACE_CLOSE \<equiv> Bracket B_BRACE_CLOSE"
abbreviation CT_VBRACE_OPEN :: E_Token where "CT_VBRACE_OPEN \<equiv> Bracket B_VBRACE_OPEN"
abbreviation CT_VBRACE_CLOSE :: E_Token where "CT_VBRACE_CLOSE \<equiv> Bracket B_VBRACE_CLOSE"
abbreviation CT_SQUARE_OPEN :: E_Token where "CT_SQUARE_OPEN \<equiv> Bracket B_SQUARE_OPEN"
abbreviation CT_SQUARE_CLOSE :: E_Token where "CT_SQUARE_CLOSE \<equiv> Bracket B_SQUARE_CLOSE"
abbreviation CT_MACRO_OPEN :: E_Token where "CT_MACRO_OPEN \<equiv> Bracket B_MACRO_OPEN"
abbreviation CT_MACRO_CLOSE :: E_Token where "CT_MACRO_CLOSE \<equiv> Bracket B_MACRO_CLOSE"

abbreviation CT_IF :: E_Token where "CT_IF \<equiv> Keyword K_IF"
abbreviation CT_ELSE :: E_Token where "CT_ELSE \<equiv> Keyword K_ELSE"
abbreviation CT_ELSEIF :: E_Token where "CT_ELSEIF \<equiv> Keyword K_ELSEIF"
abbreviation CT_CONSTEXPR :: E_Token where "CT_CONSTEXPR \<equiv> Keyword K_CONSTEXPR"
abbreviation CT_FOR :: E_Token where "CT_FOR \<equiv> Keyword K_FOR"
abbreviation CT_WHILE :: E_Token where "CT_WHILE \<equiv> Keyword K_WHILE"
abbreviation CT_WHILE_OF_DO :: E_Token where "CT_WHILE_OF_DO \<equiv> Keyword K_WHILE_OF_DO"
abbreviation CT_DO :: E_Token where "CT_DO \<equiv> Keyword K_DO"
abbreviation CT_SWITCH :: E_Token where "CT_SWITCH \<equiv> Keyword K_SWITCH"
abbreviation CT_CASE :: E_Token where "CT_CASE \<equiv> Keyword K_CASE"
abbreviation CT_DEFAULT :: E_Token where "CT_DEFAULT \<equiv> Keyword K_DEFAULT"
abbreviation CT_BREAK :: E_Token where "CT_BREAK \<equiv> Keyword K_BREAK"
abbreviation CT_CONTINUE :: E_Token where "CT_CONTINUE \<equiv> Keyword K_CONTINUE"
abbreviation CT_RETURN :: E_Token where "CT_RETURN \<equiv> Keyword K_RETURN"
abbreviation CT_GOTO :: E_Token where "CT_GOTO \<equiv> Keyword K_GOTO"
abbreviation CT_THROW :: E_Token where "CT_THROW \<equiv> Keyword K_THROW"
abbreviation CT_TRY :: E_Token where "CT_TRY \<equiv> Keyword K_TRY"
abbreviation CT_CATCH :: E_Token where "CT_CATCH \<equiv> Keyword K_CATCH"
abbreviation CT_FINALLY :: E_Token where "CT_FINALLY \<equiv> Keyword K_FINALLY"
abbreviation CT_WHEN :: E_Token where "CT_WHEN \<equiv> Keyword K_WHEN"
abbreviation CT_SYNCHRONIZED :: E_Token where "CT_SYNCHRONIZED \<equiv> Keyword K_SYNCHRONIZED"
abbreviation CT_LOCK :: E_Token where "CT_LOCK \<equiv> Keyword K_LOCK"
abbreviation CT_D_VERSION :: E_Token where "CT_D_VERSION \<equiv> Keyword K_D_VERSION"
abbreviation CT_D_VERSION_IF :: E_Token where "CT_D_VERSION_IF \<equiv> Keyword K_D_VERSION_IF"
abbreviation CT_D_SCOPE :: E_Token where "CT_D_SCOPE \<equiv> Keyword K_D_SCOPE"
abbreviation CT_D_SCOPE_IF :: E_Token where "CT_D_SCOPE_IF \<equiv> Keyword K_D_SCOPE_IF"
abbreviation CT_BODY :: E_Token where "CT_BODY \<equiv> Keyword K_BODY"
abbreviation CT_UNITTEST :: E_Token where "CT_UNITTEST \<equiv> Keyword K_UNITTEST"
abbreviation CT_UNSAFE :: E_Token where "CT_UNSAFE \<equiv> Keyword K_UNSAFE"
abbreviation CT_VOLATILE :: E_Token where "CT_VOLATILE \<equiv> Keyword K_VOLATILE"
abbreviation CT_GETSET :: E_Token where "CT_GETSET \<equiv> Keyword K_GETSET"
abbreviation CT_USING :: E_Token where "CT_USING \<equiv> Keyword K_USING"
abbreviation CT_USING_STMT :: E_Token where "CT_USING_STMT \<equiv> Keyword K_USING_STMT"
abbreviation CT_NAMESPACE :: E_Token where "CT_NAMESPACE \<equiv> Keyword K_NAMESPACE"

abbreviation CT_SEMICOLON :: E_Token where "CT_SEMICOLON \<equiv> Operator O_SEMICOLON"
abbreviation CT_VSEMICOLON :: E_Token where "CT_VSEMICOLON \<equiv> Operator O_VSEMICOLON"
abbreviation CT_COLON :: E_Token where "CT_COLON \<equiv> Operator O_COLON"
abbreviation CT_COMMA :: E_Token where "CT_COMMA \<equiv> Operator O_COMMA"
abbreviation CT_QUESTION :: E_Token where "CT_QUESTION \<equiv> Operator O_QUESTION"
abbreviation CT_ASSIGN :: E_Token where "CT_ASSIGN \<equiv> Operator O_ASSIGN"
abbreviation CT_ARITH :: E_Token where "CT_ARITH \<equiv> Operator O_ARITH"
abbreviation CT_SHIFT :: E_Token where "CT_SHIFT \<equiv> Operator O_SHIFT"
abbreviation CT_COMPARE :: E_Token where "CT_COMPARE \<equiv> Operator O_COMPARE"
abbreviation CT_BOOL :: E_Token where "CT_BOOL \<equiv> Operator O_BOOL"
abbreviation CT_STAR :: E_Token where "CT_STAR \<equiv> Operator O_STAR"
abbreviation CT_PLUS :: E_Token where "CT_PLUS \<equiv> Operator O_PLUS"
abbreviation CT_MINUS :: E_Token where "CT_MINUS \<equiv> Operator O_MINUS"
abbreviation CT_CARET :: E_Token where "CT_CARET \<equiv> Operator O_CARET"
abbreviation CT_NOT :: E_Token where "CT_NOT \<equiv> Operator O_NOT"
abbreviation CT_INV :: E_Token where "CT_INV \<equiv> Operator O_INV"

abbreviation CT_NONE :: E_Token where "CT_NONE \<equiv> Misc M_NONE"
abbreviation CT_EOF :: E_Token where "CT_EOF \<equiv> Misc M_EOF"
abbreviation CT_WORD :: E_Token where "CT_WORD \<equiv> Misc M_WORD"
abbreviation CT_NUMBER :: E_Token where "CT_NUMBER \<equiv> Misc M_NUMBER"
abbreviation CT_TYPE :: E_Token where "CT_TYPE \<equiv> Misc M_TYPE"
abbreviation CT_NEWLINE :: E_Token where "CT_NEWLINE \<equiv> Misc M_NEWLINE"
abbreviation CT_NL_CONT :: E_Token where "CT_NL_CONT \<equiv> Misc M_NL_CONT"
abbreviation CT_COMMENT :: E_Token where "CT_COMMENT \<equiv> Misc M_COMMENT"
abbreviation CT_COMMENT_MULTI :: E_Token where "CT_COMMENT_MULTI \<equiv> Misc M_COMMENT_MULTI"
abbreviation CT_COMMENT_CPP :: E_Token where "CT_COMMENT_CPP \<equiv> Misc M_COMMENT_CPP"
abbreviation CT_PREPROC :: E_Token where "CT_PREPROC \<equiv> Misc M_PREPROC"
abbreviation CT_PREPROC_BODY :: E_Token where "CT_PREPROC_BODY \<equiv> Misc M_PREPROC_BODY"
abbreviation CT_PP_DEFINE :: E_Token where "CT_PP_DEFINE \<equiv> Misc M_PP_DEFINE"
abbreviation CT_PP_IF :: E_Token where "CT_PP_IF \<equiv> Misc M_PP_IF"
abbreviation CT_PP_ELSE :: E_Token where "CT_PP_ELSE \<equiv> Misc M_PP_ELSE"
abbreviation CT_PP_ENDIF :: E_Token where "CT_PP_ENDIF \<equiv> Misc M_PP_ENDIF"
abbreviation CT_ATTRIBUTE :: E_Token where "CT_ATTRIBUTE \<equiv> Misc M_ATTRIBUTE"
abbreviation CT_IGNORED :: E_Token where "CT_IGNORED \<equiv> Misc M_IGNORED"
abbreviation CT_MACRO :: E_Token where "CT_MACRO \<equiv> Misc M_MACRO"
abbreviation CT_FUNCTION :: E_Token where "CT_FUNCTION \<equiv> Misc M_FUNCTION"
abbreviation CT_ENUM :: E_Token where "CT_ENUM \<equiv> Misc M_ENUM"
abbreviation CT_DECLSPEC :: E_Token where "CT_DECLSPEC \<equiv> Misc M_DECLSPEC"
abbreviation CT_AUTORELEASEPOOL :: E_Token where "CT_AUTORELEASEPOOL \<equiv> Misc M_AUTORELEASEPOOL"
abbreviation CT_OC_END :: E_Token where "CT_OC_END \<equiv> Misc M_OC_END"

text \<open>
  Modelled from the spec: the pairing of openers and closers. The source tests a closer with
  \<open>pc->IsNot((E_Token)(frm.top().type + 1))\<close>; token_enum.h, which fixes the numeric
  order, is not part of the sources at hand. The spec states that the enumeration places each
  closer directly after its opener and allows any equivalent pairing table. For a token that
  is not an opener the successor is not one of the closers, which is \<open>None\<close> here.
\<close>

fun closer_of :: "E_Token \<Rightarrow> E_Token option" where
  "closer_of (Bracket B_PAREN_OPEN) = Some CT_PAREN_CLOSE"
| "closer_of (Bracket B_ANGLE_OPEN) = Some CT_ANGLE_CLOSE"
| "closer_of (Bracket B_SPAREN_OPEN) = Some CT_SPAREN_CLOSE"
| "closer_of (Bracket B_FPAREN_OPEN) = Some CT_FPAREN_CLOSE"
| "closer_of (Bracket B_BRACE_OPEN) = Some CT_BRACE_CLOSE"
| "closer_of (Bracket B_VBRACE_OPEN) = Some CT_VBRACE_CLOSE"
| "closer_of (Bracket B_SQUARE_OPEN) = Some CT_SQUARE_CLOSE"
| "closer_of (Bracket B_MACRO_OPEN) = Some CT_MACRO_CLOSE"
| "closer_of _ = None"

text \<open>
  Modelled from the spec: \<open>get_token_pattern_class\<close> (keywords.cpp is not part of the
  sources at hand), after the table of pattern classes in section 4.D of the spec.
\<close>

datatype pattern_class_e =
  pattern_NONE | pattern_BRACED | pattern_PBRACED | pattern_OPBRACED | pattern_ELSE

definition get_token_pattern_class :: "E_Token \<Rightarrow> pattern_class_e" where
  "get_token_pattern_class t =
     (if t \<in> {CT_DO, CT_TRY, CT_FINALLY, CT_BODY, CT_UNITTEST, CT_UNSAFE, CT_VOLATILE,
               CT_GETSET} then pattern_BRACED
      else if t \<in> {CT_IF, CT_ELSEIF, CT_FOR, CT_WHILE, CT_SWITCH, CT_USING_STMT,
                    CT_SYNCHRONIZED, CT_LOCK, CT_CATCH, CT_D_VERSION_IF, CT_D_SCOPE_IF}
        then pattern_PBRACED
      else if t \<in> {CT_WHEN, CT_D_VERSION, CT_D_SCOPE} then pattern_OPBRACED
      else if t = CT_ELSE then pattern_ELSE
      else pattern_NONE)"

section \<open>Chunks and the chunk list\<close>

type_synonym size_t = "64 word"

datatype pcf_flag =
    PCF_IN_PREPROC | PCF_STMT_START | PCF_EXPR_START | PCF_IN_SPAREN | PCF_IN_FOR
  | PCF_IN_NAMESPACE | PCF_LONG_BLOCK | PCF_OTHER nat

text \<open>
  A chunk, with the fields that the pass reads or writes. \<open>Parent\<close> is the parent pointer
  set by \<open>SetParent\<close>. A chunk pointer is \<open>Some\<close> address into the heap of chunks, or
  \<open>None\<close> for the null chunk.
\<close>

type_synonym chunk_ptr = "nat option"

record Chunk =
  Type :: E_Token
  ParentType :: E_Token
  Level :: size_t
  BraceLevel :: size_t
  PpLevel :: size_t
  Flags :: "pcf_flag set"
  OrigLine :: size_t
  OrigCol :: size_t
  Column :: size_t
  Str :: string
  Parent :: chunk_ptr

definition null_chunk :: Chunk where
  "null_chunk = \<lparr>Type = CT_NONE, ParentType = CT_NONE, Level = 0, BraceLevel = 0, PpLevel = 0,
     Flags = {}, OrigLine = 0, OrigCol = 0, Column = 0, Str = [], Parent = None\<rparr>"

text \<open>
  The global chunk list: \<open>heap\<close> holds the chunks by address, \<open>order\<close> is the sequence of
  addresses in list order (the doubly linked list of the source).
\<close>

record chunk_list =
  heap :: "Chunk list"
  order :: "nat list"

text \<open>
  Modelled from the spec: the chunk queries of chunk.h, which is not part of the sources at
  hand. The null chunk is a sentinel: reading it gives the default chunk (type \<open>CT_NONE\<close>, no
  flags), writing it changes nothing, and an exhausted query returns it.
\<close>

definition get :: "chunk_list \<Rightarrow> chunk_ptr \<Rightarrow> Chunk" where
  "get cl p = (case p of None \<Rightarrow> null_chunk
               | Some i \<Rightarrow> if i < length (heap cl) then heap cl ! i else null_chunk)"

definition upd :: "chunk_list \<Rightarrow> chunk_ptr \<Rightarrow> (Chunk \<Rightarrow> Chunk) \<Rightarrow> chunk_list" where
  "upd cl p f = (case p of None \<Rightarrow> cl
                 | Some i \<Rightarrow> cl\<lparr>heap := (heap cl)[i := f (get cl p)]\<rparr>)"

definition IsSemicolon :: "Chunk \<Rightarrow> bool" where
  "IsSemicolon c \<longleftrightarrow> Type c = CT_SEMICOLON \<or> Type c = CT_VSEMICOLON"

definition IsComment :: "Chunk \<Rightarrow> bool" where
  "IsComment c \<longleftrightarrow> Type c = CT_COMMENT \<or> Type c = CT_COMMENT_MULTI \<or> Type c = CT_COMMENT_CPP"

definition IsNewline :: "Chunk \<Rightarrow> bool" where
  "IsNewline c \<longleftrightarrow> Type c = CT_NEWLINE \<or> Type c = CT_NL_CONT"

definition IsCommentOrNewline :: "Chunk \<Rightarrow> bool" where
  "IsCommentOrNewline c \<longleftrightarrow> IsComment c \<or> IsNewline c"

definition TestFlags :: "Chunk \<Rightarrow> pcf_flag \<Rightarrow> bool" where
  "TestFlags c f \<longleftrightarrow> f \<in> Flags c"

text \<open>The chunks before a chunk (nearest first) and after it, in list order.\<close>

definition chunks_before :: "chunk_list \<Rightarrow> chunk_ptr \<Rightarrow> nat list" where
  "chunks_before cl p = (case p of None \<Rightarrow> []
                         | Some i \<Rightarrow> rev (takeWhile (\<lambda>x. x \<noteq> i) (order cl)))"

definition chunks_after :: "chunk_list \<Rightarrow> chunk_ptr \<Rightarrow> nat list" where
  "chunks_after cl p = (case p of None \<Rightarrow> []
                        | Some i \<Rightarrow> drop 1 (dropWhile (\<lambda>x. x \<noteq> i) (order cl)))"

definition first_chunk :: "chunk_list \<Rightarrow> (Chunk \<Rightarrow> bool) \<Rightarrow> nat list \<Rightarrow> chunk_ptr" where
  "first_chunk cl P xs = find (\<lambda>q. P (get cl (Some q))) xs"

definition GetHead :: "chunk_list \<Rightarrow> chunk_ptr" where
  "GetHead cl = (case order cl of [] \<Rightarrow> None | x # _ \<Rightarrow> Some x)"

definition GetNext :: "chunk_list \<Rightarrow> chunk_ptr \<Rightarrow> chunk_ptr" where
  "GetNext cl p = first_chunk cl (\<lambda>c. True) (chunks_after cl p)"

definition GetPrev :: "chunk_list \<Rightarrow> chunk_ptr \<Rightarrow> chunk_ptr" where
  "GetPrev cl p = first_chunk cl (\<lambda>c. True) (chunks_before cl p)"

definition GetNextNc :: "chunk_list \<Rightarrow> chunk_ptr \<Rightarrow> chunk_ptr" where
  "GetNextNc cl p = first_chunk cl (\<lambda>c. \<not> IsComment c) (chunks_after cl p)"

definition GetPrevNc :: "chunk_list \<Rightarrow> chunk_ptr \<Rightarrow> chunk_ptr" where
  "GetPrevNc cl p = first_chunk cl (\<lambda>c. \<not> IsComment c) (chunks_before cl p)"

definition GetNextNcNnl :: "chunk_list \<Rightarrow> chunk_ptr \<Rightarrow> chunk_ptr" where
  "GetNextNcNnl cl p = first_chunk cl (\<lambda>c. \<not> IsCommentOrNewline c) (chunks_after cl p)"

definition GetPrevNcNnl :: "chunk_list \<Rightarrow> chunk_ptr \<Rightarrow> chunk_ptr" where
  "GetPrevNcNnl cl p = first_chunk cl (\<lambda>c. \<not> IsCommentOrNewline c) (chunks_before cl p)"

text \<open>
  \<open>CopyAndAddAfter\<close>: the chunk is copied to a fresh address and linked in directly after
  \<open>ref\<close>. With the null chunk as \<open>ref\<close> the copy becomes the head of the list.
\<close>

fun link_after :: "nat \<Rightarrow> nat \<Rightarrow> nat list \<Rightarrow> nat list" where
  "link_after r n [] = []"
| "link_after r n (x # xs) = (if x = r then x # n # xs else x # link_after r n xs)"

definition CopyAndAddAfter :: "chunk_list \<Rightarrow> Chunk \<Rightarrow> chunk_ptr \<Rightarrow> chunk_list \<times> chunk_ptr" where
  "CopyAndAddAfter cl c ref =
     (let n = length (heap cl) in
      (\<lparr>heap = heap cl @ [c],
        order = (case ref of None \<Rightarrow> n # order cl | Some r \<Rightarrow> link_after r n (order cl))\<rparr>,
       Some n))"

section \<open>Parse frames\<close>

datatype brace_stage_e =
    NONE | PAREN1 | OP_PAREN1 | BRACE2 | BRACE_DO | ELSE | ELSEIF | WHILE
  | CATCH | CATCH_WHEN | WOD_PAREN | WOD_SEMI

text \<open>
  A stack entry (\<open>paren_stack_entry_t\<close>) with the fields the pass uses; \<open>pse_pc\<close> is the
  field \<open>pc\<close>, the back-pointer to the opener chunk.
\<close>

record paren_stack_entry_t =
  type :: E_Token
  parent :: E_Token
  stage :: brace_stage_e
  pse_pc :: chunk_ptr

text \<open>
  Modelled from the spec: the parse frame (frame_list.h and ParseFrame.cpp are not part of
  the sources at hand). The vector of stack entries always holds the sentinel of type
  \<open>CT_EOF\<close> at index 0, so it is never empty: it is kept as its last element \<open>tos\<close> and
  the entries \<open>below\<close> it, nearest first. \<open>frm_pp_level\<close> is the field \<open>pp_level\<close> of the
  frame.
\<close>

record ParseFrame =
  tos :: paren_stack_entry_t
  below :: "paren_stack_entry_t list"
  level :: size_t
  brace_level :: size_t
  frm_pp_level :: size_t
  sparen_count :: size_t
  stmt_count :: size_t
  expr_count :: size_t

definition pse :: "ParseFrame \<Rightarrow> paren_stack_entry_t list" where
  "pse f = rev (tos f # below f)"

definition frame_size :: "ParseFrame \<Rightarrow> nat" where
  "frame_size f = Suc (length (below f))"

definition top :: "ParseFrame \<Rightarrow> paren_stack_entry_t" where
  "top f = tos f"

definition prev :: "ParseFrame \<Rightarrow> paren_stack_entry_t" where
  "prev f = hd (below f)"

definition at :: "ParseFrame \<Rightarrow> nat \<Rightarrow> paren_stack_entry_t option" where
  "at f i = (if i < frame_size f then Some (pse f ! i) else None)"

definition new_frame :: ParseFrame where
  "new_frame = \<lparr>tos = \<lparr>type = CT_EOF, parent = CT_NONE, stage = NONE, pse_pc = None\<rparr>,
     below = [], level = 0, brace_level = 0, frm_pp_level = 0, sparen_count = 0,
     stmt_count = 0, expr_count = 0\<rparr>"

text \<open>
  \<open>push(opener, stage)\<close> appends \<open>{type: opener.type, parent: opener.parent_type, stage,
  pc: opener}\<close>; \<open>push(nullptr)\<close> appends the entry of the null chunk. \<open>pop\<close> removes the
  top; popping the last entry is an underflow (\<open>None\<close>).
\<close>

definition push :: "ParseFrame \<Rightarrow> chunk_list \<Rightarrow> chunk_ptr \<Rightarrow> brace_stage_e \<Rightarrow> ParseFrame" where
  "push f cl pc st =
     f\<lparr>tos := \<lparr>type = Type (get cl pc), parent = ParentType (get cl pc), stage = st,
                pse_pc = pc\<rparr>,
       below := tos f # below f\<rparr>"

definition pop :: "ParseFrame \<Rightarrow> ParseFrame option" where
  "pop f = (case below f of [] \<Rightarrow> None | b # bs \<Rightarrow> Some (f\<lparr>tos := b, below := bs\<rparr>))"

text \<open>
  Modelled from the spec: the frame list (frame_list.cpp is not part of the sources at
  hand). \<open>fl_push\<close> saves a copy of the frame on the list; \<open>fl_pop\<close> takes the last saved
  frame back as the current one, and leaves the frame alone when the list is empty.
\<close>

definition fl_push :: "ParseFrame list \<Rightarrow> ParseFrame \<Rightarrow> ParseFrame list" where
  "fl_push fs f = fs @ [f]"

definition fl_pop :: "ParseFrame list \<Rightarrow> ParseFrame \<Rightarrow> ParseFrame list \<times> ParseFrame" where
  "fl_pop fs f = (if fs = [] then (fs, f) else (butlast fs, last fs))"

section \<open>The state of the pass\<close>

record BraceState =
  frames :: "ParseFrame list"
  in_preproc :: E_Token
  pp_level :: int
  consumed :: bool

text \<open>The warnings (\<open>LOG_FMT(LWARN, ...)\<close>) of the pass, by the place that writes them.\<close>

datatype log_msg =
    WARN_unbalanced_define size_t
  | WARN_close_mismatch
  | WARN_expected_close
  | WARN_unexpected_close
  | WARN_expected_semicolon
  | WARN_expected_while
  | WARN_expected_paren
  | WARN_tos_stage

record state =
  chunks :: chunk_list
  frm :: ParseFrame
  braceState :: BraceState
  warnings :: "log_msg list"

text \<open>
  A call either returns, or ends the run: \<open>exit(code)\<close>, or one of the exceptions
  (\<open>invalid_argument\<close> of \<open>close_statement\<close>, an index out of range, a stack underflow).
\<close>

datatype abort = EXIT nat | invalid_argument | out_of_range | stack_underflow

datatype 'a result = Return 'a state | Abort abort state

definition EXIT_FAILURE :: nat where "EXIT_FAILURE = 1"
definition EX_SOFTWARE :: nat where "EX_SOFTWARE = 70"

definition LOG_WARN :: "log_msg \<Rightarrow> state \<Rightarrow> state" where
  "LOG_WARN m s = s\<lparr>warnings := warnings s @ [m]\<rparr>"

definition top_update :: "(paren_stack_entry_t \<Rightarrow> paren_stack_entry_t) \<Rightarrow> state \<Rightarrow> state" where
  "top_update g s = s\<lparr>frm := (frm s)\<lparr>tos := g (tos (frm s))\<rparr>\<rparr>"

definition chunk_update :: "chunk_ptr \<Rightarrow> (Chunk \<Rightarrow> Chunk) \<Rightarrow> state \<Rightarrow> state" where
  "chunk_update pc g s = s\<lparr>chunks := upd (chunks s) pc g\<rparr>"

definition chunk_of :: "state \<Rightarrow> chunk_ptr \<Rightarrow> Chunk" where
  "chunk_of s pc = get (chunks s) pc"

section \<open>Options, languages and the hooks into other passes\<close>

datatype lang_flag =
  LANG_C | LANG_CPP | LANG_D | LANG_CS | LANG_JAVA | LANG_OC | LANG_VALA | LANG_PAWN

text \<open>
  The options and language flags that the pass reads, the constant \<open>PCF_COPY_FLAGS\<close>, and
  the functions of other passes that it calls, all of them declared outside the sources at
  hand and taken as parameters.
\<close>

record env =
  lang_flags :: "lang_flag set"
  pp_warn_unbalanced_if :: bool
  indent_namespace :: bool
  indent_namespace_single_indent :: bool
  indent_namespace_limit :: size_t
  indent_else_if :: bool
  indent_using_block :: bool
  PCF_COPY_FLAGS :: "pcf_flag set"
  fl_check :: "chunk_list \<Rightarrow> chunk_ptr \<Rightarrow> ParseFrame list \<Rightarrow> ParseFrame \<Rightarrow> int
                 \<Rightarrow> (ParseFrame list \<times> ParseFrame \<times> int) \<times> int"
  pawn_check_vsemicolon :: "chunk_list \<Rightarrow> chunk_ptr \<Rightarrow> chunk_list \<times> chunk_ptr"
  pawn_add_vsemi_after :: "chunk_list \<Rightarrow> chunk_ptr \<Rightarrow> chunk_list"
  flag_parens :: "chunk_list \<Rightarrow> chunk_ptr \<Rightarrow> pcf_flag \<Rightarrow> E_Token \<Rightarrow> E_Token \<Rightarrow> bool \<Rightarrow> chunk_list"
  GetClosingParen :: "chunk_list \<Rightarrow> chunk_ptr \<Rightarrow> chunk_ptr"

definition language_is_set :: "env \<Rightarrow> lang_flag \<Rightarrow> bool" where
  "language_is_set env l \<longleftrightarrow> l \<in> lang_flags env"

section \<open>Virtual braces\<close>

text \<open>
  The loop of \<open>insert_vbrace\<close> that walks back over comments and newlines, raising their
  levels; the list holds the chunks from \<open>ref\<close> backwards.
\<close>

fun vbrace_rewind :: "chunk_list \<Rightarrow> nat list \<Rightarrow> chunk_list \<times> chunk_ptr" where
  "vbrace_rewind cl [] = (cl, None)"
| "vbrace_rewind cl (r # rs) =
     (if IsCommentOrNewline (get cl (Some r))
      then vbrace_rewind
             (upd cl (Some r) (\<lambda>c. c\<lparr>Level := Level c + 1, BraceLevel := BraceLevel c + 1\<rparr>)) rs
      else (cl, Some r))"

definition insert_vbrace ::
  "env \<Rightarrow> chunk_list \<Rightarrow> chunk_ptr \<Rightarrow> bool \<Rightarrow> ParseFrame \<Rightarrow> chunk_list \<times> chunk_ptr" where
  "insert_vbrace env cl pc after f =
     (let chunk = null_chunk\<lparr>ParentType := type (top f), OrigLine := OrigLine (get cl pc),
                    Level := level f, PpLevel := frm_pp_level f, BraceLevel := brace_level f,
                    Flags := Flags (get cl pc) \<inter> PCF_COPY_FLAGS env, Str := []\<rparr>
      in if after
         then CopyAndAddAfter cl (chunk\<lparr>OrigCol := OrigCol (get cl pc), Type := CT_VBRACE_CLOSE\<rparr>) pc
         else
           let ref = GetPrev cl pc in
           if ref = None then (cl, None)
           else
             let chunk = (if \<not> TestFlags (get cl ref) PCF_IN_PREPROC
                          then chunk\<lparr>Flags := Flags chunk - {PCF_IN_PREPROC}\<rparr> else chunk);
                 ref_is_comment = IsComment (get cl ref);
                 (cl, ref) = vbrace_rewind cl (chunks_before cl pc)
             in if ref = None then (cl, None)
                else
                  let ref = (if \<not> TestFlags (get cl pc) PCF_IN_PREPROC
                                \<and> TestFlags (get cl ref) PCF_IN_PREPROC
                             then (if Type (get cl ref) = CT_PREPROC_BODY
                                   then first_chunk cl (\<lambda>c. \<not> TestFlags c PCF_IN_PREPROC)
                                          (the ref # chunks_before cl ref)
                                   else let r = GetNext cl ref
                                        in if Type (get cl r) = CT_COMMENT then GetNextNc cl r else r)
                             else ref);
                      ref = (if ref_is_comment then GetNext cl ref else ref)
                  in if ref = None then (cl, None)
                     else CopyAndAddAfter cl
                            (chunk\<lparr>OrigLine := OrigLine (get cl ref), OrigCol := OrigCol (get cl ref),
                                   Column := Column (get cl ref)
                                             + word_of_nat (length (Str (get cl ref))) + 1,
                                   PpLevel := PpLevel (get cl ref), Type := CT_VBRACE_OPEN\<rparr>)
                            ref)"

section \<open>Closing statements\<close>

text \<open>
  The branch of \<open>close_statement\<close> that adds a virtual brace close before an unconsumed
  chunk, up to the pop of the virtual brace open.
\<close>

definition close_vbrace_before :: "env \<Rightarrow> state \<Rightarrow> chunk_ptr \<Rightarrow> state" where
  "close_vbrace_before env s pc =
     (let vbc = GetPrevNcNnl (chunks s) pc;
          f = (frm s)\<lparr>level := level (frm s) - 1, brace_level := brace_level (frm s) - 1\<rparr>;
          (cl, vbc) = insert_vbrace env (chunks s) vbc True f;
          cl = upd cl vbc (\<lambda>c. c\<lparr>ParentType := parent (top f)\<rparr>)
      in s\<lparr>chunks := cl, frm := f\<rparr>)"

definition set_levels :: "chunk_ptr \<Rightarrow> state \<Rightarrow> state" where
  "set_levels pc s =
     chunk_update pc (\<lambda>c. c\<lparr>Level := level (frm s), BraceLevel := brace_level (frm s)\<rparr>) s"

function close_statement :: "env \<Rightarrow> state \<Rightarrow> chunk_ptr \<Rightarrow> bool result"
  and handle_complex_close :: "env \<Rightarrow> state \<Rightarrow> chunk_ptr \<Rightarrow> bool result"
where
  "close_statement env s pc =
     (if pc = None then Abort invalid_argument s
      else
        let s1 = (if consumed (braceState s)
                  then s\<lparr>frm := (frm s)\<lparr>stmt_count := 0, expr_count := 0\<rparr>\<rparr> else s)
        in if type (top (frm s1)) = CT_VBRACE_OPEN \<and> \<not> consumed (braceState s1)
           then
             let s2 = close_vbrace_before env s1 pc
             in (case pop (frm s2) of
                   None \<Rightarrow> Abort stack_underflow s2
                 | Some f \<Rightarrow>
                     (case close_statement env (set_levels pc (s2\<lparr>frm := f\<rparr>)) pc of
                        Return b s3 \<Rightarrow> Return True s3
                      | Abort a s3 \<Rightarrow> Abort a s3))
           else
             let s2 = (if type (top (frm s1)) = CT_VBRACE_OPEN
                       then s1\<lparr>chunks := fst (insert_vbrace env (chunks s1) pc True (frm s1))\<rparr>
                       else s1)
             in if stage (top (frm s2)) \<noteq> NONE
                then handle_complex_close env s2 pc
                else Return False s2)"
| "handle_complex_close env s pc =
     (if stage (top (frm s)) = PAREN1 then
        (if Type (chunk_of s (GetNext (chunks s) pc)) = CT_WHEN
         then Return True
                (top_update (\<lambda>e. e\<lparr>type := Type (chunk_of s pc), stage := CATCH_WHEN\<rparr>) s)
         else Return False (top_update (\<lambda>e. e\<lparr>stage := BRACE2\<rparr>) s))
      else if stage (top (frm s)) = BRACE2 then
        (if type (top (frm s)) = CT_IF \<or> type (top (frm s)) = CT_ELSEIF then
           let s1 = top_update (\<lambda>e. e\<lparr>stage := ELSE\<rparr>) s;
               next = GetNextNcNnl (chunks s1) pc
           in if next = None \<or> Type (chunk_of s1 next) \<noteq> CT_ELSE
              then (case pop (frm s1) of
                      None \<Rightarrow> Abort stack_underflow s1
                    | Some f \<Rightarrow> close_statement env (s1\<lparr>frm := f\<rparr>) pc)
              else Return False s1
         else if type (top (frm s)) = CT_TRY \<or> type (top (frm s)) = CT_CATCH then
           let s1 = top_update (\<lambda>e. e\<lparr>stage := CATCH\<rparr>) s;
               next = GetNextNcNnl (chunks s1) pc
           in if Type (chunk_of s1 next) \<noteq> CT_CATCH \<and> Type (chunk_of s1 next) \<noteq> CT_FINALLY
              then (case pop (frm s1) of
                      None \<Rightarrow> Abort stack_underflow s1
                    | Some f \<Rightarrow> close_statement env (s1\<lparr>frm := f\<rparr>) pc)
              else Return False s1
         else
           (case pop (frm s) of
              None \<Rightarrow> Abort stack_underflow s
            | Some f \<Rightarrow> close_statement env (s\<lparr>frm := f\<rparr>) pc))
      else if stage (top (frm s)) = BRACE_DO then
        Return False (top_update (\<lambda>e. e\<lparr>stage := WHILE\<rparr>) s)
      else if stage (top (frm s)) = WOD_PAREN then
        Return False (top_update (\<lambda>e. e\<lparr>stage := WOD_SEMI\<rparr>) s)
      else if stage (top (frm s)) = WOD_SEMI then
        (case pop (frm s) of
           None \<Rightarrow> Abort stack_underflow s
         | Some f \<Rightarrow> close_statement env (s\<lparr>frm := f\<rparr>) pc)
      else Abort (EXIT EX_SOFTWARE) (LOG_WARN WARN_tos_stage s))"
  by pat_completeness auto
termination
  by (relation "measure (\<lambda>x. case x of
          Inl (env, s, pc) \<Rightarrow> 2 * length (below (frm s)) + 1
        | Inr (env, s, pc) \<Rightarrow> 2 * length (below (frm s)))")
     (auto simp: close_vbrace_before_def set_levels_def chunk_update_def top_update_def
         pop_def Let_def split: prod.splits list.splits if_splits)

declare close_statement.simps [simp del] handle_complex_close.simps [simp del]

section \<open>The progression of complex statements\<close>

text \<open>
  A function body is a sequence of steps. A step either falls through to the next step
  (\<open>Return None\<close>), or returns from the function with a value (\<open>Return (Some v)\<close>), or
  ends the run.
\<close>

fun run_steps :: "(state \<Rightarrow> 'a option result) list \<Rightarrow> state \<Rightarrow> 'a option result" where
  "run_steps [] s = Return None s"
| "run_steps (st # sts) s =
     (case st s of
        Return None s' \<Rightarrow> run_steps sts s'
      | Return (Some v) s' \<Rightarrow> Return (Some v) s'
      | Abort a s' \<Rightarrow> Abort a s')"

text \<open>Turn an optional parenthesis into either a real parenthesis or a brace.\<close>

definition ccs_op_paren1 :: "chunk_ptr \<Rightarrow> state \<Rightarrow> bool option result" where
  "ccs_op_paren1 pc s =
     Return None
       (if stage (top (frm s)) = OP_PAREN1
        then top_update (\<lambda>e. e\<lparr>stage := (if Type (chunk_of s pc) \<noteq> CT_PAREN_OPEN
                                           then BRACE2 else PAREN1)\<rparr>) s
        else s)"

text \<open>
  The two loops of \<open>check_complex_statements\<close>: \<open>CT_ELSE\<close> after \<open>CT_IF\<close>, and
  \<open>CT_CATCH\<close> or \<open>CT_FINALLY\<close> after \<open>CT_TRY\<close> or \<open>CT_CATCH\<close>.
\<close>

function ccs_else_loop :: "env \<Rightarrow> chunk_ptr \<Rightarrow> state \<Rightarrow> bool option result"
  and ccs_catch_loop :: "env \<Rightarrow> chunk_ptr \<Rightarrow> state \<Rightarrow> bool option result"
where
  "ccs_else_loop env pc s =
     (if stage (top (frm s)) = ELSE then
        (if Type (chunk_of s pc) = CT_ELSE
         then Return (Some True) (top_update (\<lambda>e. e\<lparr>type := CT_ELSE, stage := ELSEIF\<rparr>) s)
         else (case pop (frm s) of
                 None \<Rightarrow> Abort stack_underflow s
               | Some f \<Rightarrow>
                   (case close_statement env (s\<lparr>frm := f\<rparr>) pc of
                      Abort a s' \<Rightarrow> Abort a s'
                    | Return b s' \<Rightarrow>
                        if b then Return (Some True) s' else ccs_else_loop env pc s')))
      else Return None s)"
| "ccs_catch_loop env pc s =
     (if stage (top (frm s)) = CATCH then
        (if Type (chunk_of s pc) = CT_CATCH \<or> Type (chunk_of s pc) = CT_FINALLY
         then Return (Some True)
                (top_update (\<lambda>e. e\<lparr>type := Type (chunk_of s pc),
                       stage := (if language_is_set env LANG_CS
                                 then (if Type (chunk_of s pc) = CT_CATCH
                                       then CATCH_WHEN else BRACE2)
                                 else (if Type (chunk_of s pc) = CT_CATCH
                                       then PAREN1 else BRACE2))\<rparr>) s)
         else (case pop (frm s) of
                 None \<Rightarrow> Abort stack_underflow s
               | Some f \<Rightarrow>
                   (case close_statement env (s\<lparr>frm := f\<rparr>) pc of
                      Abort a s' \<Rightarrow> Abort a s'
                    | Return b s' \<Rightarrow>
                        if b then Return (Some True) s' else ccs_catch_loop env pc s')))
      else Return None s)"
  by pat_completeness auto

termination
proof -
  have L_cvb: "length (below (frm (close_vbrace_before env s pc))) = length (below (frm s))"
    for env s pc
    by (simp add: close_vbrace_before_def Let_def split: prod.splits)
  have L_sl: "frm (set_levels pc s) = frm s" for pc s
    by (simp add: set_levels_def chunk_update_def)
  have L_pop: "pop f = Some f' \<Longrightarrow> length (below f') < length (below f)" for f f'
    by (auto simp: pop_def split: list.splits)
  have L_tu: "below (frm (top_update g s)) = below (frm s)" for g s
    by (simp add: top_update_def)
  have size_le:
    "close_statement env s pc = Return b s' \<Longrightarrow> length (below (frm s')) \<le> length (below (frm s))"
    "handle_complex_close env s pc = Return b s' \<Longrightarrow> length (below (frm s')) \<le> length (below (frm s))"
    for env s pc b s'
  proof (induction env s pc and env s pc arbitrary: b s' and b s' rule: close_statement_handle_complex_close.induct)
    case (1 env s pc)
    define s1 where "s1 = (if consumed (braceState s)
                    then s\<lparr>frm := (frm s)\<lparr>stmt_count := 0, expr_count := 0\<rparr>\<rparr> else s)"
    have L1: "length (below (frm s1)) = length (below (frm s))" by (simp add: s1_def)
    from "1.prems" have pc: "pc \<noteq> None" by (subst (asm) close_statement.simps) (simp split: if_splits)
    show ?case
    proof (cases "type (top (frm s1)) = CT_VBRACE_OPEN \<and> \<not> consumed (braceState s1)")
      case True
      define s2 where "s2 = close_vbrace_before env s1 pc"
      from "1.prems" pc True obtain f b' where
        f: "pop (frm s2) = Some f" and r: "close_statement env (set_levels pc (s2\<lparr>frm := f\<rparr>)) pc = Return b' s'"
        by (subst (asm) close_statement.simps)
           (simp add: s1_def[symmetric] s2_def[symmetric] Let_def split: option.splits result.splits)
      from "1.IH"(1)[OF pc s1_def True s2_def f r]
      have "length (below (frm s')) \<le> length (below f)" by (simp add: L_sl)
      with L_pop[OF f] show ?thesis by (simp add: s2_def L_cvb L1)
    next
      case False
      define s2 where "s2 = (if type (top (frm s1)) = CT_VBRACE_OPEN
                         then s1\<lparr>chunks := fst (insert_vbrace env (chunks s1) pc True (frm s1))\<rparr>
                         else s1)"
      have L2: "length (below (frm s2)) = length (below (frm s))" by (simp add: s2_def L1)
      show ?thesis
      proof (cases "stage (top (frm s2)) \<noteq> NONE")
        case True
        from "1.prems" pc False True have "handle_complex_close env s2 pc = Return b s'"
          by (subst (asm) close_statement.simps)
             (simp add: s1_def[symmetric] s2_def[symmetric] Let_def)
        from "1.IH"(2)[OF pc s1_def False s2_def True this] show ?thesis by (simp add: L2)
      next
        case F2: False
        from "1.prems" pc False F2 have "s' = s2"
          by (subst (asm) close_statement.simps)
             (simp add: s1_def[symmetric] s2_def[symmetric] Let_def)
        then show ?thesis by (simp add: L2)
      qed
    qed
  next
    case (2 env s pc)
    note hcc = handle_complex_close.simps[of env s pc]
    have fin: "length (below (frm s')) \<le> length (below (frm s))"
      if "pop (frm s1) = Some f" "below (frm s1) = below (frm s)"
         "length (below (frm s')) \<le> length (below (frm (s1\<lparr>frm := f\<rparr>)))" for s1 f
      using that L_pop[of "frm s1" f] by simp
    show ?case
    proof (cases "stage (top (frm s)) = PAREN1")
      case True
      then show ?thesis using "2.prems"
        by (subst (asm) hcc) (auto simp: L_tu split: if_splits)
    next
      case nP: False
      show ?thesis
      proof (cases "stage (top (frm s)) = BRACE2")
        case B2: True
        show ?thesis
        proof (cases "type (top (frm s)) = CT_IF \<or> type (top (frm s)) = CT_ELSEIF")
          case tIF: True
          define s1 where "s1 = top_update (\<lambda>e. e\<lparr>stage := ELSE\<rparr>) s"
          define nx where "nx = GetNextNcNnl (chunks s1) pc"
          have b1: "below (frm s1) = below (frm s)" by (simp add: s1_def L_tu)
          show ?thesis
          proof (cases "nx = None \<or> Type (chunk_of s1 nx) \<noteq> CT_ELSE")
            case T: True
            from "2.prems" nP B2 tIF T obtain f where p: "pop (frm s1) = Some f"
              and c: "close_statement env (s1\<lparr>frm := f\<rparr>) pc = Return b s'"
              by (subst (asm) hcc)
                 (simp add: Let_def s1_def[symmetric] nx_def[symmetric] split: option.splits)
            from fin[OF p b1 "2.IH"(1)[OF nP B2 tIF s1_def nx_def T p c]] show ?thesis .
          next
            case F: False
            from "2.prems" nP B2 tIF F have "s' = s1"
              by (subst (asm) hcc) (simp add: Let_def s1_def[symmetric] nx_def[symmetric])
            then show ?thesis by (simp add: b1)
          qed
        next
          case nIF: False
          show ?thesis
          proof (cases "type (top (frm s)) = CT_TRY \<or> type (top (frm s)) = CT_CATCH")
            case tTRY: True
            define s1 where "s1 = top_update (\<lambda>e. e\<lparr>stage := CATCH\<rparr>) s"
            define nx where "nx = GetNextNcNnl (chunks s1) pc"
            have b1: "below (frm s1) = below (frm s)" by (simp add: s1_def L_tu)
            show ?thesis
            proof (cases "Type (chunk_of s1 nx) \<noteq> CT_CATCH \<and> Type (chunk_of s1 nx) \<noteq> CT_FINALLY")
              case T: True
              from "2.prems" nP B2 nIF tTRY T obtain f where p: "pop (frm s1) = Some f"
                and c: "close_statement env (s1\<lparr>frm := f\<rparr>) pc = Return b s'"
                by (subst (asm) hcc)
                   (simp add: Let_def s1_def[symmetric] nx_def[symmetric] split: option.splits)
              from fin[OF p b1 "2.IH"(2)[OF nP B2 nIF tTRY s1_def nx_def T p c]] show ?thesis .
            next
              case F: False
              from "2.prems" nP B2 nIF tTRY F have "s' = s1"
                by (subst (asm) hcc) (simp add: Let_def s1_def[symmetric] nx_def[symmetric])
              then show ?thesis by (simp add: b1)
            qed
          next
            case nTRY: False
            from "2.prems" nP B2 nIF nTRY obtain f where p: "pop (frm s) = Some f"
              and c: "close_statement env (s\<lparr>frm := f\<rparr>) pc = Return b s'"
              by (subst (asm) hcc) (simp split: option.splits)
            from fin[OF p refl "2.IH"(3)[OF nP B2 nIF nTRY p c]] show ?thesis .
          qed
        qed
      next
        case nB2: False
        show ?thesis
        proof (cases "stage (top (frm s)) = BRACE_DO \<or> stage (top (frm s)) = WOD_PAREN")
          case True
          then show ?thesis using "2.prems" nP nB2
            by (subst (asm) hcc) (auto simp: L_tu split: if_splits)
        next
          case False
          then have nBD: "stage (top (frm s)) \<noteq> BRACE_DO" and nWP: "stage (top (frm s)) \<noteq> WOD_PAREN"
            by simp_all
          show ?thesis
          proof (cases "stage (top (frm s)) = WOD_SEMI")
            case WS: True
            from "2.prems" nP nB2 nBD nWP WS obtain f where p: "pop (frm s) = Some f"
              and c: "close_statement env (s\<lparr>frm := f\<rparr>) pc = Return b s'"
              by (subst (asm) hcc) (simp split: option.splits)
            from fin[OF p refl "2.IH"(4)[OF nP nB2 nBD nWP WS p c]] show ?thesis .
          next
            case nWS: False
            from "2.prems" nP nB2 nBD nWP nWS show ?thesis
              by (subst (asm) hcc) simp
          qed
        qed
      qed
    qed
  qed
  show ?thesis
    by (relation "measure (\<lambda>x. case x of
            Inl (env, pc, s) \<Rightarrow> length (below (frm s))
          | Inr (env, pc, s) \<Rightarrow> length (below (frm s)))")
       (auto dest!: L_pop size_le(1))
qed

declare ccs_else_loop.simps [simp del] ccs_catch_loop.simps [simp del]

text \<open>Check for \<open>CT_IF\<close> after \<open>CT_ELSE\<close>.\<close>

definition ccs_elseif :: "env \<Rightarrow> chunk_ptr \<Rightarrow> state \<Rightarrow> bool option result" where
  "ccs_elseif env pc s =
     (if stage (top (frm s)) = ELSEIF then
        (if Type (chunk_of s pc) = CT_IF
            \<and> (\<not> indent_else_if env \<or> \<not> IsNewline (chunk_of s (GetPrevNc (chunks s) pc)))
         then Return (Some True)
                (top_update (\<lambda>e. e\<lparr>type := CT_ELSEIF, stage := PAREN1\<rparr>)
                   (chunk_update pc (\<lambda>c. c\<lparr>Type := CT_ELSEIF\<rparr>) s))
         else Return None (top_update (\<lambda>e. e\<lparr>stage := BRACE2\<rparr>) s))
      else Return None s)"

text \<open>Check for optional parenthesis and optional \<open>CT_WHEN\<close> after \<open>CT_CATCH\<close>.\<close>

definition ccs_catch_when :: "chunk_ptr \<Rightarrow> state \<Rightarrow> bool option result" where
  "ccs_catch_when pc s =
     (if stage (top (frm s)) = CATCH_WHEN then
        (if Type (chunk_of s pc) = CT_PAREN_OPEN then
           Return (Some False)
             (top_update (\<lambda>e. e\<lparr>type := CT_SPAREN_OPEN, stage := PAREN1\<rparr>)
                (chunk_update pc (\<lambda>c. c\<lparr>Type := CT_SPAREN_OPEN\<rparr>) s))
         else if Type (chunk_of s pc) = CT_WHEN then
           Return (Some True)
             (top_update (\<lambda>e. e\<lparr>type := Type (chunk_of s pc), stage := OP_PAREN1\<rparr>) s)
         else if Type (chunk_of s pc) = CT_BRACE_OPEN then
           Return (Some False) (top_update (\<lambda>e. e\<lparr>stage := BRACE2\<rparr>) s)
         else Return None s)
      else Return None s)"

text \<open>The pop that comes before an \<open>exit\<close>, and \<open>exit\<close> itself.\<close>

definition pop_and_exit :: "nat \<Rightarrow> state \<Rightarrow> 'a result" where
  "pop_and_exit code s =
     (case pop (frm s) of
        None \<Rightarrow> Abort stack_underflow s
      | Some f \<Rightarrow> Abort (EXIT code) (s\<lparr>frm := f\<rparr>))"

text \<open>Check for \<open>CT_WHILE\<close> after the \<open>CT_DO\<close>.\<close>

definition ccs_while :: "chunk_ptr \<Rightarrow> state \<Rightarrow> bool option result" where
  "ccs_while pc s =
     (if stage (top (frm s)) = WHILE then
        (if Type (chunk_of s pc) = CT_WHILE
         then Return (Some True)
                (top_update (\<lambda>e. e\<lparr>type := CT_WHILE_OF_DO, stage := WOD_PAREN\<rparr>)
                   (chunk_update pc (\<lambda>c. c\<lparr>Type := CT_WHILE_OF_DO\<rparr>) s))
         else pop_and_exit EX_SOFTWARE (LOG_WARN WARN_expected_while s))
      else Return None s)"

text \<open>Insert a \<open>CT_VBRACE_OPEN\<close>, if needed, but not in a preprocessor.\<close>

definition ccs_vbrace_open :: "env \<Rightarrow> chunk_ptr \<Rightarrow> state \<Rightarrow> bool option result" where
  "ccs_vbrace_open env pc s =
     (if Type (chunk_of s pc) \<noteq> CT_BRACE_OPEN
         \<and> \<not> TestFlags (chunk_of s pc) PCF_IN_PREPROC
         \<and> (stage (top (frm s)) = BRACE2 \<or> stage (top (frm s)) = BRACE_DO)
      then
        (if language_is_set env LANG_CS \<and> Type (chunk_of s pc) = CT_USING_STMT
            \<and> \<not> indent_using_block env
         then Return None s
         else
           let parentType = type (top (frm s));
               (cl, vbrace) = insert_vbrace env (chunks s) pc False (frm s);
               cl = upd cl vbrace (\<lambda>c. c\<lparr>ParentType := parentType\<rparr>);
               f = (frm s)\<lparr>level := level (frm s) + 1, brace_level := brace_level (frm s) + 1\<rparr>;
               f = push f cl vbrace NONE;
               f = f\<lparr>tos := (tos f)\<lparr>parent := parentType\<rparr>\<rparr>;
               cl = upd cl pc (\<lambda>c. c\<lparr>Level := level f, BraceLevel := brace_level f\<rparr>);
               cl = upd cl pc (\<lambda>c. c\<lparr>Flags := Flags c \<union> {PCF_STMT_START, PCF_EXPR_START}\<rparr>);
               f = f\<lparr>stmt_count := 1, expr_count := 1\<rparr>
           in Return None (s\<lparr>chunks := cl, frm := f\<rparr>))
      else Return None s)"

text \<open>Check for \<open>constexpr\<close> after \<open>CT_IF\<close> or \<open>CT_ELSEIF\<close>.\<close>

definition ccs_constexpr :: "chunk_ptr \<Rightarrow> state \<Rightarrow> bool option result" where
  "ccs_constexpr pc s =
     (if stage (top (frm s)) = PAREN1
         \<and> (type (top (frm s)) = CT_IF \<or> type (top (frm s)) = CT_ELSEIF)
         \<and> Type (chunk_of s pc) = CT_CONSTEXPR
      then Return (Some False) s
      else Return None s)"

text \<open>Verify open parenthesis in complex statement.\<close>

definition ccs_verify_paren :: "chunk_ptr \<Rightarrow> state \<Rightarrow> bool option result" where
  "ccs_verify_paren pc s =
     (if Type (chunk_of s pc) \<noteq> CT_PAREN_OPEN
         \<and> (stage (top (frm s)) = PAREN1 \<or> stage (top (frm s)) = WOD_PAREN)
      then pop_and_exit EX_SOFTWARE (LOG_WARN WARN_expected_paren s)
      else Return None s)"

definition check_complex_statements :: "env \<Rightarrow> state \<Rightarrow> chunk_ptr \<Rightarrow> bool result" where
  "check_complex_statements env s pc =
     (case run_steps
             [ccs_op_paren1 pc, ccs_else_loop env pc, ccs_elseif env pc, ccs_catch_loop env pc,
              ccs_catch_when pc, ccs_while pc, ccs_vbrace_open env pc, ccs_constexpr pc,
              ccs_verify_paren pc] s of
        Return (Some b) s' \<Rightarrow> Return b s'
      | Return None s' \<Rightarrow> Return False s'
      | Abort a s' \<Rightarrow> Abort a s')"

section \<open>The cleanup of one chunk\<close>

text \<open>\<open>pc->IsString(")")\<close> and the like compare the text of the chunk.\<close>

definition IsString :: "Chunk \<Rightarrow> string \<Rightarrow> bool" where
  "IsString c str \<longleftrightarrow> Str c = str"

text \<open>Mark statement starts, and count the chunk.\<close>

definition pc_mark_start :: "chunk_ptr \<Rightarrow> state \<Rightarrow> unit option result" where
  "pc_mark_start pc s =
     (let s1 = (if (stmt_count (frm s) = 0 \<or> expr_count (frm s) = 0)
                   \<and> \<not> IsSemicolon (chunk_of s pc)
                   \<and> Type (chunk_of s pc) \<noteq> CT_BRACE_CLOSE
                   \<and> Type (chunk_of s pc) \<noteq> CT_VBRACE_CLOSE
                   \<and> \<not> IsString (chunk_of s pc) '')''
                   \<and> \<not> IsString (chunk_of s pc) '']''
                then chunk_update pc
                       (\<lambda>c. c\<lparr>Flags := Flags c \<union> {PCF_EXPR_START}
                                \<union> (if stmt_count (frm s) = 0 then {PCF_STMT_START} else {})\<rparr>) s
                else s)
      in Return None
           (s1\<lparr>frm := (frm s1)\<lparr>stmt_count := stmt_count (frm s1) + 1,
                                expr_count := expr_count (frm s1) + 1\<rparr>\<rparr>))"

text \<open>
  Mark the chunks inside statement parentheses, everything in the \<open>for\<close> statement, and
  the parent on semicolons in \<open>for()\<close> statements. The loop over \<open>tmp\<close> runs from
  \<open>frm.size() - 2\<close> down to 0, that is over the entries below the top.
\<close>

definition pc_mark_sparen :: "chunk_ptr \<Rightarrow> state \<Rightarrow> unit option result" where
  "pc_mark_sparen pc s =
     (if sparen_count (frm s) > 0 then
        let s1 = chunk_update pc (\<lambda>c. c\<lparr>Flags := Flags c \<union> {PCF_IN_SPAREN}\<rparr>) s;
            s2 = (if \<exists>e \<in> set (below (frm s1)). type e = CT_FOR
                  then chunk_update pc (\<lambda>c. c\<lparr>Flags := Flags c \<union> {PCF_IN_FOR}\<rparr>) s1
                  else s1);
            s3 = (if Type (chunk_of s2 pc) = CT_SEMICOLON
                     \<and> frame_size (frm s2) > 2
                     \<and> type (prev (frm s2)) = CT_FOR
                  then chunk_update pc (\<lambda>c. c\<lparr>ParentType := CT_FOR\<rparr>) s2
                  else s2)
        in Return None s3
      else Return None s)"

text \<open>Check the progression of complex statements.\<close>

definition pc_complex :: "env \<Rightarrow> chunk_ptr \<Rightarrow> state \<Rightarrow> unit option result" where
  "pc_complex env pc s =
     (if stage (top (frm s)) \<noteq> NONE \<and> Type (chunk_of s pc) \<noteq> CT_AUTORELEASEPOOL
      then (case check_complex_statements env s pc of
              Return b s' \<Rightarrow> if b then Return (Some ()) s' else Return None s'
            | Abort a s' \<Rightarrow> Abort a s')
      else Return None s)"

text \<open>A call whose result is not looked at.\<close>

definition ignore_result :: "bool result \<Rightarrow> unit option result" where
  "ignore_result r = (case r of Return b s' \<Rightarrow> Return None s' | Abort a s' \<Rightarrow> Abort a s')"

text \<open>Check for a virtual brace statement close due to a semicolon.\<close>

definition pc_vbrace_close :: "env \<Rightarrow> chunk_ptr \<Rightarrow> state \<Rightarrow> unit option result" where
  "pc_vbrace_close env pc s =
     (if type (top (frm s)) = CT_VBRACE_OPEN then
        (if IsSemicolon (chunk_of s pc) then
           ignore_result
             (close_statement env (s\<lparr>braceState := (braceState s)\<lparr>consumed := True\<rparr>\<rparr>) pc)
         else if language_is_set env LANG_PAWN \<and> Type (chunk_of s pc) = CT_BRACE_CLOSE then
           ignore_result (close_statement env s pc)
         else if language_is_set env LANG_D \<and> Type (chunk_of s pc) = CT_BRACE_CLOSE then
           ignore_result (close_statement env s pc)
         else Return None s)
      else Return None s)"

text \<open>
  Handle close parenthesis, vbrace, brace, and square. First a \<open>CT_PAREN_CLOSE\<close> is changed
  into \<open>CT_SPAREN_CLOSE\<close> or \<open>CT_FPAREN_CLOSE\<close>; then the open and the close must match.
\<close>

definition is_closer :: "E_Token \<Rightarrow> bool" where
  "is_closer t \<longleftrightarrow> t = CT_PAREN_CLOSE \<or> t = CT_BRACE_CLOSE \<or> t = CT_VBRACE_CLOSE
     \<or> t = CT_ANGLE_CLOSE \<or> t = CT_MACRO_CLOSE \<or> t = CT_SQUARE_CLOSE"

definition close_retype :: "chunk_ptr \<Rightarrow> state \<Rightarrow> state" where
  "close_retype pc s =
     (if Type (chunk_of s pc) = CT_PAREN_CLOSE
         \<and> (type (top (frm s)) = CT_FPAREN_OPEN \<or> type (top (frm s)) = CT_SPAREN_OPEN)
      then
        let s1 = chunk_update pc
                   (\<lambda>c. c\<lparr>Type := (case closer_of (type (top (frm s))) of
                                       Some t \<Rightarrow> t | None \<Rightarrow> Type c)\<rparr>) s
        in if Type (chunk_of s1 pc) = CT_SPAREN_CLOSE
           then chunk_update pc (\<lambda>c. c\<lparr>Flags := Flags c - {PCF_IN_SPAREN}\<rparr>)
                  (s1\<lparr>frm := (frm s1)\<lparr>sparen_count := sparen_count (frm s1) - 1\<rparr>\<rparr>)
           else s1
      else s)"

definition close_mismatch :: "chunk_ptr \<Rightarrow> state \<Rightarrow> unit option result" where
  "close_mismatch pc s =
     (if TestFlags (chunk_of s pc) PCF_IN_PREPROC then Return None s
      else
        let s1 = LOG_WARN WARN_close_mismatch s;
            s2 = (if type (top (frm s1)) \<noteq> CT_EOF then LOG_WARN WARN_expected_close s1 else s1)
        in if type (top (frm s2)) \<noteq> CT_EOF \<and> type (top (frm s2)) \<noteq> CT_PP_DEFINE
           then Abort (EXIT EXIT_FAILURE) (LOG_WARN WARN_unexpected_close s2)
           else Return None s2)"

definition close_match :: "env \<Rightarrow> chunk_ptr \<Rightarrow> state \<Rightarrow> unit option result" where
  "close_match env pc s =
     (let s1 = s\<lparr>braceState := (braceState s)\<lparr>consumed := True\<rparr>\<rparr>;
          s2 = chunk_update pc (\<lambda>c. c\<lparr>ParentType := parent (top (frm s1))\<rparr>) s1;
          s3 = s2\<lparr>frm := (frm s2)\<lparr>level := level (frm s2) - 1\<rparr>\<rparr>;
          s4 = (if Type (chunk_of s3 pc) = CT_BRACE_CLOSE
                   \<or> Type (chunk_of s3 pc) = CT_VBRACE_CLOSE
                   \<or> Type (chunk_of s3 pc) = CT_MACRO_CLOSE
                then s3\<lparr>frm := (frm s3)\<lparr>brace_level := brace_level (frm s3) - 1\<rparr>\<rparr>
                else s3);
          s5 = set_levels pc s4
      in case pop (frm s5) of
           None \<Rightarrow> Abort stack_underflow s5
         | Some f \<Rightarrow>
             let s6 = s5\<lparr>frm := f\<rparr>;
                 s7 = (if stage (top (frm s6)) = NONE
                          \<and> (Type (chunk_of s6 pc) = CT_VBRACE_CLOSE
                             \<or> Type (chunk_of s6 pc) = CT_BRACE_CLOSE
                             \<or> Type (chunk_of s6 pc) = CT_SEMICOLON)
                          \<and> Type (chunk_of s6 (pse_pc (top (frm s6)))) = CT_VBRACE_OPEN
                       then top_update (\<lambda>e. e\<lparr>stage := BRACE2\<rparr>)
                              (s6\<lparr>frm := push (frm s6) (chunks s6) None NONE\<rparr>)
                       else s6)
             in if stage (top (frm s7)) \<noteq> NONE
                then ignore_result (handle_complex_close env s7 pc)
                else Return None s7)"

definition pc_close :: "env \<Rightarrow> chunk_ptr \<Rightarrow> state \<Rightarrow> unit option result" where
  "pc_close env pc s =
     (if is_closer (Type (chunk_of s pc)) then
        let s1 = close_retype pc s
        in if closer_of (type (top (frm s1))) \<noteq> Some (Type (chunk_of s1 pc))
           then close_mismatch pc s1
           else close_match env pc s1
      else Return None s)"

text \<open>
  In the stage \<open>WOD_SEMI\<close> a semicolon is expected, but the closing sparen is seen too;
  \<open>consumed\<close> tells whether the close sparen was already handled.
\<close>

definition pc_wod_semi :: "env \<Rightarrow> chunk_ptr \<Rightarrow> state \<Rightarrow> unit option result" where
  "pc_wod_semi env pc s =
     (if stage (top (frm s)) = WOD_SEMI then
        (if consumed (braceState s) then
           (if language_is_set env LANG_PAWN
               \<and> \<not> IsSemicolon (chunk_of s (GetNextNcNnl (chunks s) pc))
            then Return None (s\<lparr>chunks := pawn_add_vsemi_after env (chunks s) pc\<rparr>)
            else Return None s)
         else
           (if IsSemicolon (chunk_of s pc) then
              ignore_result
                (handle_complex_close env
                   (chunk_update pc (\<lambda>c. c\<lparr>ParentType := CT_WHILE_OF_DO\<rparr>)
                      (s\<lparr>braceState := (braceState s)\<lparr>consumed := True\<rparr>\<rparr>)) pc)
            else Abort (EXIT EX_SOFTWARE) (LOG_WARN WARN_expected_semicolon s)))
      else Return None s)"

text \<open>Get the parent type for brace and parenthesis open.\<close>

definition is_sparen_keyword :: "E_Token \<Rightarrow> bool" where
  "is_sparen_keyword t \<longleftrightarrow> t \<in> {CT_IF, CT_CONSTEXPR, CT_ELSEIF, CT_WHILE, CT_WHILE_OF_DO, CT_DO,
     CT_FOR, CT_SWITCH, CT_CATCH, CT_SYNCHRONIZED, CT_D_VERSION, CT_D_VERSION_IF, CT_D_SCOPE,
     CT_D_SCOPE_IF}"

definition open_parent :: "env \<Rightarrow> chunk_ptr \<Rightarrow> state \<Rightarrow> state \<times> E_Token" where
  "open_parent env pc s =
     (let parentType = ParentType (chunk_of s pc);
          t = Type (chunk_of s pc);
          prev = chunk_of s (GetPrevNcNnl (chunks s) pc)
      in if (t = CT_PAREN_OPEN \<or> t = CT_FPAREN_OPEN \<or> t = CT_SPAREN_OPEN \<or> t = CT_BRACE_OPEN)
            \<and> GetPrevNcNnl (chunks s) pc \<noteq> None
         then
           (if t = CT_PAREN_OPEN \<or> t = CT_FPAREN_OPEN \<or> t = CT_SPAREN_OPEN then
              (if is_sparen_keyword (Type prev) then
                 (chunk_update pc (\<lambda>c. c\<lparr>Type := CT_SPAREN_OPEN\<rparr>)
                    (s\<lparr>frm := (frm s)\<lparr>sparen_count := sparen_count (frm s) + 1\<rparr>\<rparr>),
                  type (top (frm s)))
               else if Type prev = CT_FUNCTION then
                 (chunk_update pc (\<lambda>c. c\<lparr>Type := CT_FPAREN_OPEN\<rparr>) s, CT_FUNCTION)
               else if Type prev = CT_ENUM \<and> language_is_set env LANG_OC then
                 (chunk_update pc (\<lambda>c. c\<lparr>Type := CT_FPAREN_OPEN\<rparr>) s, CT_ENUM)
               else if Type prev = CT_DECLSPEC then (s, CT_DECLSPEC)
               else (s, parentType))
            else
              (if stage (top (frm s)) \<noteq> NONE then (s, type (top (frm s)))
               else if Type prev = CT_ASSIGN
                       \<and> (case Str prev of [] \<Rightarrow> False | ch # _ \<Rightarrow> ch = CHR ''='')
                 then (s, CT_ASSIGN)
               else if Type prev = CT_RETURN \<and> language_is_set env LANG_CPP then (s, CT_RETURN)
               else if Type prev = CT_FPAREN_CLOSE \<and> language_is_set env LANG_OC
                       \<and> ParentType prev = CT_ENUM
                 then (s, CT_ENUM)
               else if Type prev = CT_FPAREN_CLOSE then (s, CT_FUNCTION)
               else (s, parentType)))
         else (s, parentType))"

text \<open>Adjust the level for opens and create a stack entry.\<close>

definition pc_open :: "env \<Rightarrow> chunk_ptr \<Rightarrow> state \<Rightarrow> unit option result" where
  "pc_open env pc s0 =
     (let (s, parentType) = open_parent env pc s0;
          t = Type (chunk_of s pc)
      in if t = CT_BRACE_OPEN \<or> t = CT_PAREN_OPEN \<or> t = CT_FPAREN_OPEN \<or> t = CT_SPAREN_OPEN
            \<or> t = CT_ANGLE_OPEN \<or> t = CT_MACRO_OPEN \<or> t = CT_SQUARE_OPEN
         then
           let s1 = s\<lparr>frm := (frm s)\<lparr>level := level (frm s) + 1\<rparr>\<rparr>;
               single = (ParentType (chunk_of s1 pc) = CT_NAMESPACE
                         \<and> ParentType (chunk_of s1 (pse_pc (top (frm s1)))) = CT_NAMESPACE
                         \<and> indent_namespace env \<and> indent_namespace_single_indent env);
               s2 = (if (t = CT_BRACE_OPEN \<or> t = CT_MACRO_OPEN) \<and> \<not> single
                     then s1\<lparr>frm := (frm s1)\<lparr>brace_level := brace_level (frm s1) + 1\<rparr>\<rparr>
                     else s1);
               s3 = top_update (\<lambda>e. e\<lparr>parent := parentType\<rparr>)
                      (s2\<lparr>frm := push (frm s2) (chunks s2) pc NONE\<rparr>)
           in Return None (chunk_update pc (\<lambda>c. c\<lparr>ParentType := parentType\<rparr>) s3)
         else Return None s)"

text \<open>
  \<open>frm.at(idx - 2).pc\<close> with \<open>idx = frm.size()\<close>, set as the parent of the chunk when it
  is not the null chunk. With the sentinel alone on the stack the index is out of range.
\<close>

definition set_parent_saved :: "chunk_ptr \<Rightarrow> state \<Rightarrow> unit option result" where
  "set_parent_saved pc s =
     (if frame_size (frm s) < 2 then Abort out_of_range s
      else (case at (frm s) (frame_size (frm s) - 2) of
              None \<Rightarrow> Abort out_of_range s
            | Some e \<Rightarrow>
                if pse_pc e \<noteq> None
                then Return None (chunk_update pc (\<lambda>c. c\<lparr>Parent := pse_pc e\<rparr>) s)
                else Return None s))"

definition pc_switch :: "chunk_ptr \<Rightarrow> state \<Rightarrow> unit option result" where
  "pc_switch pc s =
     (if Type (chunk_of s pc) = CT_BRACE_OPEN \<and> ParentType (chunk_of s pc) = CT_SWITCH
      then set_parent_saved pc s
      else Return None s)"

definition pc_case :: "chunk_ptr \<Rightarrow> state \<Rightarrow> unit option result" where
  "pc_case pc s =
     (if Type (chunk_of s pc) = CT_CASE
         \<or> (Type (chunk_of s pc) = CT_DEFAULT
            \<and> Type (chunk_of s (GetPrevNcNnl (chunks s) pc)) \<noteq> CT_ASSIGN)
      then set_parent_saved pc (chunk_update pc (\<lambda>c. c\<lparr>ParentType := CT_SWITCH\<rparr>) s)
      else Return None s)"

definition pc_break :: "chunk_ptr \<Rightarrow> state \<Rightarrow> unit option result" where
  "pc_break pc s =
     (if Type (chunk_of s pc) = CT_BREAK then set_parent_saved pc s else Return None s)"

text \<open>
  \<open>maybe_while_of_do\<close>: \<open>pc\<close> is a \<open>CT_WHILE\<close>; look at the chunk before it. The loop
  that is meant to find the chunk before the preprocessor runs while \<open>prev\<close> is the null
  chunk and flagged \<open>PCF_IN_PREPROC\<close>.
\<close>

function maybe_while_of_do_loop :: "chunk_list \<Rightarrow> chunk_ptr \<Rightarrow> chunk_ptr" where
  "maybe_while_of_do_loop cl prv =
     (if prv = None \<and> TestFlags (get cl prv) PCF_IN_PREPROC
      then maybe_while_of_do_loop cl (GetPrevNcNnl cl prv)
      else prv)"
  by pat_completeness auto
termination
  by (relation "{}") (auto simp: get_def null_chunk_def TestFlags_def)

declare maybe_while_of_do_loop.simps [simp del]

definition maybe_while_of_do :: "chunk_list \<Rightarrow> chunk_ptr \<Rightarrow> bool" where
  "maybe_while_of_do cl pc =
     (let prev = GetPrevNcNnl cl pc
      in if prev = None \<or> \<not> TestFlags (get cl prev) PCF_IN_PREPROC then False
         else
           let prev = maybe_while_of_do_loop cl prev
           in (Type (get cl prev) = CT_VBRACE_CLOSE \<or> Type (get cl prev) = CT_BRACE_CLOSE)
              \<and> ParentType (get cl prev) = CT_DO)"

text \<open>Create a stack entry for complex statements.\<close>

definition pc_push_complex :: "chunk_ptr \<Rightarrow> state \<Rightarrow> unit option result" where
  "pc_push_complex pc s =
     (let patcls = get_token_pattern_class (Type (chunk_of s pc))
      in if patcls = pattern_BRACED then
           Return None
             (s\<lparr>frm := push (frm s) (chunks s) pc
                          (if Type (chunk_of s pc) = CT_DO then BRACE_DO else BRACE2)\<rparr>)
         else if patcls = pattern_PBRACED then
           (if Type (chunk_of s pc) = CT_WHILE \<and> maybe_while_of_do (chunks s) pc
            then let s1 = chunk_update pc (\<lambda>c. c\<lparr>Type := CT_WHILE_OF_DO\<rparr>) s
                 in Return None (s1\<lparr>frm := push (frm s1) (chunks s1) pc WOD_PAREN\<rparr>)
            else Return None (s\<lparr>frm := push (frm s) (chunks s) pc PAREN1\<rparr>))
         else if patcls = pattern_OPBRACED then
           Return None (s\<lparr>frm := push (frm s) (chunks s) pc OP_PAREN1\<rparr>)
         else if patcls = pattern_ELSE then
           Return None (s\<lparr>frm := push (frm s) (chunks s) pc ELSEIF\<rparr>)
         else Return None s)"

text \<open>Mark simple statement/expression starts.\<close>

definition pc_stmt_reset :: "chunk_ptr \<Rightarrow> state \<Rightarrow> unit option result" where
  "pc_stmt_reset pc s =
     (let c = chunk_of s pc
      in if Type c = CT_SQUARE_OPEN
            \<or> (Type c = CT_BRACE_OPEN \<and> ParentType c \<noteq> CT_ASSIGN)
            \<or> Type c = CT_BRACE_CLOSE
            \<or> Type c = CT_VBRACE_CLOSE
            \<or> (Type c = CT_SPAREN_OPEN \<and> ParentType c = CT_FOR)
            \<or> Type c = CT_COLON
            \<or> Type c = CT_OC_END
            \<or> (IsSemicolon c
               \<and> type (top (frm s)) \<noteq> CT_PAREN_OPEN
               \<and> type (top (frm s)) \<noteq> CT_FPAREN_OPEN
               \<and> type (top (frm s)) \<noteq> CT_SPAREN_OPEN)
            \<or> Type c = CT_MACRO
         then Return None (s\<lparr>frm := (frm s)\<lparr>stmt_count := 0, expr_count := 0\<rparr>\<rparr>)
         else Return None s)"

text \<open>Mark expression starts.\<close>

definition pc_expr_reset :: "chunk_ptr \<Rightarrow> state \<Rightarrow> unit option result" where
  "pc_expr_reset pc s =
     (let c = chunk_of s pc;
          tmp = chunk_of s (GetNextNcNnl (chunks s) pc)
      in if Type c \<in> {CT_ARITH, CT_SHIFT, CT_ASSIGN, CT_CASE, CT_COMPARE}
            \<or> (Type c = CT_STAR \<and> Type tmp \<noteq> CT_STAR)
            \<or> Type c \<in> {CT_BOOL, CT_MINUS, CT_PLUS, CT_CARET, CT_ANGLE_OPEN, CT_ANGLE_CLOSE,
                  CT_RETURN, CT_THROW, CT_GOTO, CT_CONTINUE, CT_PAREN_OPEN, CT_FPAREN_OPEN,
                  CT_SPAREN_OPEN, CT_BRACE_OPEN}
            \<or> IsSemicolon c
            \<or> Type c \<in> {CT_COMMA, CT_NOT, CT_INV, CT_COLON, CT_QUESTION}
         then Return None (s\<lparr>frm := (frm s)\<lparr>expr_count := 0\<rparr>\<rparr>)
         else Return None s)"

definition parse_cleanup :: "env \<Rightarrow> state \<Rightarrow> chunk_ptr \<Rightarrow> unit result" where
  "parse_cleanup env s pc =
     (case run_steps
             [pc_mark_start pc, pc_mark_sparen pc, pc_complex env pc, pc_vbrace_close env pc,
              pc_close env pc, pc_wod_semi env pc, pc_open env pc, pc_switch pc, pc_case pc,
              pc_break pc, pc_push_complex pc, pc_stmt_reset pc, pc_expr_reset pc] s of
        Return v s' \<Rightarrow> Return () s'
      | Abort a s' \<Rightarrow> Abort a s')"

section \<open>Namespaces and the preprocessor\<close>

text \<open>
  \<open>mark_namespace\<close>: skip the word after \<open>namespace\<close> and set the parent of the braces.
  The list holds the chunks after \<open>pns\<close> that are neither comments nor newlines.
\<close>

fun mark_namespace_loop :: "env \<Rightarrow> bool \<Rightarrow> chunk_list \<Rightarrow> nat list \<Rightarrow> chunk_list" where
  "mark_namespace_loop env is_using cl [] = cl"
| "mark_namespace_loop env is_using cl (p # ps) =
     (let cl1 = upd cl (Some p) (\<lambda>c. c\<lparr>ParentType := CT_NAMESPACE\<rparr>)
      in if Type (get cl1 (Some p)) \<noteq> CT_BRACE_OPEN then
           (if Type (get cl1 (Some p)) = CT_SEMICOLON
            then (if is_using then upd cl1 (Some p) (\<lambda>c. c\<lparr>ParentType := CT_USING\<rparr>) else cl1)
            else mark_namespace_loop env is_using cl1 ps)
         else
           let br_close = GetClosingParen env cl1 (Some p);
               numberOfLines = OrigLine (get cl1 br_close) - OrigLine (get cl1 (Some p)) - 1;
               cl2 = (if indent_namespace_limit env > 0 \<and> br_close \<noteq> None
                         \<and> numberOfLines > indent_namespace_limit env
                      then upd (upd cl1 (Some p) (\<lambda>c. c\<lparr>Flags := Flags c \<union> {PCF_LONG_BLOCK}\<rparr>))
                             br_close (\<lambda>c. c\<lparr>Flags := Flags c \<union> {PCF_LONG_BLOCK}\<rparr>)
                      else cl1)
           in flag_parens env cl2 (Some p) PCF_IN_NAMESPACE CT_NONE CT_NAMESPACE False)"

definition mark_namespace :: "env \<Rightarrow> chunk_list \<Rightarrow> chunk_ptr \<Rightarrow> chunk_list" where
  "mark_namespace env cl pns =
     (let is_using = (Type (get cl (GetPrevNcNnl cl pns)) = CT_USING);
          cl1 = (if is_using then upd cl pns (\<lambda>c. c\<lparr>ParentType := CT_USING\<rparr>) else cl)
      in mark_namespace_loop env is_using cl1
           (filter (\<lambda>q. \<not> IsCommentOrNewline (get cl1 (Some q))) (chunks_after cl1 pns)))"

text \<open>The frame of a \<open>#define\<close> body: a new, blank frame with a \<open>CT_PP_DEFINE\<close> entry.\<close>

definition define_frame :: "chunk_list \<Rightarrow> ParseFrame" where
  "define_frame cl =
     (let f = push (new_frame\<lparr>level := 1, brace_level := 1\<rparr>) cl None NONE
      in f\<lparr>tos := (tos f)\<lparr>type := CT_PP_DEFINE\<rparr>\<rparr>)"

definition preproc_start :: "env \<Rightarrow> state \<Rightarrow> chunk_ptr \<Rightarrow> state \<times> size_t" where
  "preproc_start env s pc =
     (let pp_level_0 = (word_of_int (pp_level (braceState s)) :: size_t);
          next = GetNextNcNnl (chunks s) pc
      in if next = None then (s, pp_level_0)
         else
           let s1 = s\<lparr>braceState := (braceState s)\<lparr>in_preproc := Type (chunk_of s next)\<rparr>\<rparr>
           in if in_preproc (braceState s1) \<noteq> CT_PP_DEFINE then
                let ((fs, f, ppl), pp_indent) =
                      fl_check env (chunks s1) pc (frames (braceState s1)) (frm s1)
                        (pp_level (braceState s1))
                in (s1\<lparr>frm := f, braceState := (braceState s1)\<lparr>frames := fs, pp_level := ppl\<rparr>\<rparr>,
                    word_of_int pp_indent)
              else
                (s1\<lparr>braceState := (braceState s1)\<lparr>frames := fl_push (frames (braceState s1)) (frm s1)\<rparr>,
                    frm := define_frame (chunks s1)\<rparr>,
                 pp_level_0))"

section \<open>The sweep over the chunk list\<close>

text \<open>Check for leaving a \<open>#define\<close> body.\<close>

definition leave_preproc :: "env \<Rightarrow> chunk_ptr \<Rightarrow> state \<Rightarrow> state" where
  "leave_preproc env pc s =
     (if in_preproc (braceState s) \<noteq> CT_NONE \<and> \<not> TestFlags (chunk_of s pc) PCF_IN_PREPROC
      then
        let s1 = (if in_preproc (braceState s) = CT_PP_DEFINE then
                    let s2 = (if pp_warn_unbalanced_if env \<and> brace_level (frm s) \<noteq> 1
                              then LOG_WARN (WARN_unbalanced_define (brace_level (frm s))) s
                              else s);
                        (fs, f) = fl_pop (frames (braceState s2)) (frm s2)
                    in s2\<lparr>frm := f, braceState := (braceState s2)\<lparr>frames := fs\<rparr>\<rparr>
                  else s)
        in s1\<lparr>braceState := (braceState s1)\<lparr>in_preproc := CT_NONE\<rparr>\<rparr>
      else s)"

text \<open>
  One turn of the loop of \<open>brace_cleanup\<close>: the result is the chunk to go on with; the
  null chunk ends the loop.
\<close>

definition brace_cleanup_chunk :: "env \<Rightarrow> state \<Rightarrow> chunk_ptr \<Rightarrow> chunk_ptr result" where
  "brace_cleanup_chunk env s0 pc0 =
     (let s1 = leave_preproc env pc0 s0;
          (s2, pp_level_1) = (if Type (chunk_of s1 pc0) = CT_PREPROC then preproc_start env s1 pc0
                              else (s1, word_of_int (pp_level (braceState s1))));
          (s3, pc) = (if language_is_set env LANG_PAWN \<and> type (top (frm s2)) = CT_VBRACE_OPEN
                         \<and> Type (chunk_of s2 pc0) = CT_NEWLINE
                      then let (cl, p) = pawn_check_vsemicolon env (chunks s2) pc0
                           in (s2\<lparr>chunks := cl\<rparr>, p)
                      else (s2, pc0))
      in if pc = None then Return None s3
         else
           let s4 = (if Type (chunk_of s3 pc) = CT_NAMESPACE
                     then s3\<lparr>chunks := mark_namespace env (chunks s3) pc\<rparr> else s3);
               s5 = chunk_update pc
                      (\<lambda>c. c\<lparr>Level := level (frm s4), BraceLevel := brace_level (frm s4),
                             PpLevel := pp_level_1\<rparr>) s4
           in if \<not> IsCommentOrNewline (chunk_of s5 pc)
                 \<and> Type (chunk_of s5 pc) \<noteq> CT_ATTRIBUTE
                 \<and> Type (chunk_of s5 pc) \<noteq> CT_IGNORED
                 \<and> (in_preproc (braceState s5) = CT_PP_DEFINE
                    \<or> in_preproc (braceState s5) = CT_NONE)
              then (case parse_cleanup env
                           (s5\<lparr>braceState := (braceState s5)\<lparr>consumed := False\<rparr>\<rparr>) pc of
                      Return v s6 \<Rightarrow> Return (GetNext (chunks s6) pc) s6
                    | Abort a s6 \<Rightarrow> Abort a s6)
              else Return (GetNext (chunks s5) pc) s5)"

text \<open>
  The loop of \<open>brace_cleanup\<close>, with a bound on the number of turns: \<open>None\<close> when the
  bound is reached before the end of the list.
\<close>

fun brace_cleanup_loop :: "nat \<Rightarrow> env \<Rightarrow> state \<Rightarrow> chunk_ptr \<Rightarrow> unit result option" where
  "brace_cleanup_loop 0 env s pc = None"
| "brace_cleanup_loop (Suc n) env s pc =
     (if pc = None then Some (Return () s)
      else (case brace_cleanup_chunk env s pc of
              Abort a s' \<Rightarrow> Some (Abort a s')
            | Return pc' s' \<Rightarrow> brace_cleanup_loop n env s' pc'))"

definition initial_state :: "chunk_list \<Rightarrow> state" where
  "initial_state cl =
     \<lparr>chunks = cl, frm = new_frame,
      braceState = \<lparr>frames = [], in_preproc = CT_NONE, pp_level = 0, consumed = False\<rparr>,
      warnings = []\<rparr>"

definition brace_cleanup :: "nat \<Rightarrow> env \<Rightarrow> chunk_list \<Rightarrow> unit result option" where
  "brace_cleanup n env cl = brace_cleanup_loop n env (initial_state cl) (GetHead cl)"

section \<open>Notions used in the statements\<close>

text \<open>
  A closer that the open/close check of \<open>parse_cleanup\<close> finds unmatched: its type is not
  the closer of the type on top of the stack, and it is not a \<open>CT_PAREN_CLOSE\<close> on a
  \<open>CT_FPAREN_OPEN\<close> or \<open>CT_SPAREN_OPEN\<close>, which the pass first retypes into the matching
  closer.
\<close>

definition unmatched_closer :: "state \<Rightarrow> chunk_ptr \<Rightarrow> bool" where
  "unmatched_closer s pc \<longleftrightarrow>
     is_closer (Type (chunk_of s pc))
     \<and> closer_of (type (top (frm s))) \<noteq> Some (Type (chunk_of s pc))
     \<and> \<not> (Type (chunk_of s pc) = CT_PAREN_CLOSE
          \<and> (type (top (frm s)) = CT_FPAREN_OPEN \<or> type (top (frm s)) = CT_SPAREN_OPEN))"

text \<open>
  The depth of the stack of the frame that a call of \<open>close_statement\<close> (\<open>Inl\<close>) or of
  \<open>handle_complex_close\<close> (\<open>Inr\<close>) is made with.
\<close>

definition call_stack_depth ::
  "(env \<times> state \<times> chunk_ptr) + (env \<times> state \<times> chunk_ptr) \<Rightarrow> nat" where
  "call_stack_depth c =
     (case c of Inl (env, s, pc) \<Rightarrow> frame_size (frm s) | Inr (env, s, pc) \<Rightarrow> frame_size (frm s))"

text \<open>The frame that \<open>preproc_start\<close> sets up for the body of a \<open>#define\<close>.\<close>

definition define_body_frame :: ParseFrame where
  "define_body_frame =
     \<lparr>tos = \<lparr>type = CT_PP_DEFINE, parent = CT_NONE, stage = NONE, pse_pc = None\<rparr>,
      below = [\<lparr>type = CT_EOF, parent = CT_NONE, stage = NONE, pse_pc = None\<rparr>],
      level = 1, brace_level = 1, frm_pp_level = 0, sparen_count = 0, stmt_count = 0,
      expr_count = 0\<rparr>"

text \<open>A pointer to a chunk of the list, as opposed to the null chunk or a stale address.\<close>

definition is_chunk :: "chunk_list \<Rightarrow> chunk_ptr \<Rightarrow> bool" where
  "is_chunk cl p \<longleftrightarrow> (case p of None \<Rightarrow> False | Some i \<Rightarrow> i < length (heap cl))"




section \<open>Sample inputs\<close>

text \<open>
  A configuration for C sources: the hooks of other passes do nothing (none of them is
  reached on the sample inputs), and \<open>fl_check\<close> leaves the frames alone.
\<close>

definition c_env :: env where
  "c_env = \<lparr>lang_flags = {LANG_C}, pp_warn_unbalanced_if = True, indent_namespace = False,
     indent_namespace_single_indent = False, indent_namespace_limit = 0, indent_else_if = False,
     indent_using_block = True, PCF_COPY_FLAGS = {PCF_IN_PREPROC, PCF_IN_SPAREN, PCF_IN_FOR},
     fl_check = (\<lambda>cl pc fs f ppl. ((fs, f, ppl), ppl)),
     pawn_check_vsemicolon = (\<lambda>cl pc. (cl, pc)),
     pawn_add_vsemi_after = (\<lambda>cl pc. cl),
     flag_parens = (\<lambda>cl pc fl t1 t2 b. cl),
     GetClosingParen = (\<lambda>cl pc. None)\<rparr>"

text \<open>
  A chunk as the tokenizer leaves it, one inside a preprocessor directive, and the chunk
  list of a sequence of tokens.
\<close>

definition token :: "E_Token \<Rightarrow> string \<Rightarrow> Chunk" where
  "token t str = null_chunk\<lparr>Type := t, Str := str\<rparr>"

definition pp_token :: "E_Token \<Rightarrow> string \<Rightarrow> Chunk" where
  "pp_token t str = (token t str)\<lparr>Flags := {PCF_IN_PREPROC}\<rparr>"

definition token_stream :: "Chunk list \<Rightarrow> chunk_list" where
  "token_stream cs = \<lparr>heap = cs, order = [0..<length cs]\<rparr>"

text \<open>
  The state after the first \<open>n\<close> turns of the loop of \<open>brace_cleanup\<close>, with the chunk that
  the next turn works on.
\<close>

fun turns :: "nat \<Rightarrow> env \<Rightarrow> state \<Rightarrow> chunk_ptr \<Rightarrow> (chunk_ptr \<times> state) option" where
  "turns 0 env s pc = Some (pc, s)"
| "turns (Suc n) env s pc =
     (case brace_cleanup_chunk env s pc of
        Abort a s' \<Rightarrow> None
      | Return pc' s' \<Rightarrow> turns n env s' pc')"

definition state_at :: "nat \<Rightarrow> env \<Rightarrow> chunk_list \<Rightarrow> state" where
  "state_at n env cl =
     (case turns n env (initial_state cl) (GetHead cl) of
        Some (pc, s) \<Rightarrow> s
      | None \<Rightarrow> initial_state cl)"

text \<open>
  What a run shows from outside: how it ended (\<open>None\<close> for a return) and the warnings; and
  the types and parent types of the chunks after a run that returned, in list order.
\<close>

definition outcome :: "unit result option \<Rightarrow> (abort option \<times> log_msg list) option" where
  "outcome r =
     (case r of
        None \<Rightarrow> None
      | Some (Return u s) \<Rightarrow> Some (None, warnings s)
      | Some (Abort a s) \<Rightarrow> Some (Some a, warnings s))"

definition result_state :: "'a result \<Rightarrow> state" where
  "result_state r = (case r of Return v s \<Rightarrow> s | Abort a s \<Rightarrow> s)"

definition types_of :: "unit result option \<Rightarrow> (E_Token \<times> E_Token) list" where
  "types_of r =
     (case r of
        Some (Return u s) \<Rightarrow>
          map (\<lambda>i. (Type (get (chunks s) (Some i)), ParentType (get (chunks s) (Some i))))
            (order (chunks s))
      | _ \<Rightarrow> [])"

text \<open>The token stream of \<open>do { x; } while (y);\<close>.\<close>

definition do_while :: chunk_list where
  "do_while = token_stream
     [token CT_DO ''do'', token CT_BRACE_OPEN ''{'', token CT_WORD ''x'',
      token CT_SEMICOLON '';'', token CT_BRACE_CLOSE ''}'', token CT_WHILE ''while'',
      token CT_PAREN_OPEN ''('', token CT_WORD ''y'', token CT_PAREN_CLOSE '')'',
      token CT_SEMICOLON '';'']"

text \<open>A file that is a single \<open>}\<close>, and the two tokens \<open>( }\<close>.\<close>

definition lone_close :: chunk_list where
  "lone_close = token_stream [token CT_BRACE_CLOSE ''}'']"

definition paren_brace :: chunk_list where
  "paren_brace = token_stream [token CT_PAREN_OPEN ''('', token CT_BRACE_CLOSE ''}'']"

text \<open>The line \<open>#define X )\<close>, followed by \<open>a;\<close> on the next line.\<close>

definition define_close :: chunk_list where
  "define_close = token_stream
     [pp_token CT_PREPROC ''#'', pp_token CT_PP_DEFINE ''define'', pp_token CT_WORD ''X'',
      pp_token CT_PAREN_CLOSE '')'', token CT_NEWLINE [], token CT_WORD ''a'',
      token CT_SEMICOLON '';'']"

text \<open>The tokens \<open>if ( x ) y z\<close>: after \<open>y\<close> a virtual brace is open.\<close>

definition if_y_z :: chunk_list where
  "if_y_z = token_stream
     [token CT_IF ''if'', token CT_PAREN_OPEN ''('', token CT_WORD ''x'',
      token CT_PAREN_CLOSE '')'', token CT_WORD ''y'', token CT_WORD ''z'']"

text \<open>The tokens \<open>if constexpr ( x ) y ;\<close>, \<open>if x\<close> and \<open>for ( ; ; ) a ;\<close>.\<close>

definition if_constexpr :: chunk_list where
  "if_constexpr = token_stream
     [token CT_IF ''if'', token CT_CONSTEXPR ''constexpr'', token CT_PAREN_OPEN ''('',
      token CT_WORD ''x'', token CT_PAREN_CLOSE '')'', token CT_WORD ''y'',
      token CT_SEMICOLON '';'']"

definition if_word :: chunk_list where
  "if_word = token_stream [token CT_IF ''if'', token CT_WORD ''x'']"




section \<open>Basic facts\<close>

lemma frm_set_levels [simp]: "frm (set_levels pc s) = frm s"
  by (simp add: set_levels_def chunk_update_def)

lemma frm_top_update [simp]: "frm (top_update g s) = (frm s)\<lparr>tos := g (tos (frm s))\<rparr>"
  by (simp add: top_update_def)

lemma frm_LOG_WARN [simp]: "frm (LOG_WARN m s) = frm s"
  by (simp add: LOG_WARN_def)

lemma chunks_LOG_WARN [simp]: "chunks (LOG_WARN m s) = chunks s"
  by (simp add: LOG_WARN_def)

lemma chunk_of_LOG_WARN [simp]: "chunk_of (LOG_WARN m s) pc = chunk_of s pc"
  by (simp add: chunk_of_def)

lemma below_close_vbrace_before:
  "below (frm (close_vbrace_before env s pc)) = below (frm s)"
  by (simp add: close_vbrace_before_def Let_def split: prod.splits)

lemma pop_SomeD: "pop f = Some f' \<Longrightarrow> below f = tos f' # below f'"
  by (auto simp: pop_def split: list.splits)

lemma run_steps_append:
  "run_steps (xs @ ys) s =
     (case run_steps xs s of
        Return None s' \<Rightarrow> run_steps ys s'
      | Return (Some v) s' \<Rightarrow> Return (Some v) s'
      | Abort a s' \<Rightarrow> Abort a s')"
  by (induction xs arbitrary: s) (auto split: result.splits option.splits)

lemma get_upd:
  "get (upd cl p g) q = (if q = p \<and> is_chunk cl p then g (get cl p) else get cl q)"
  by (auto simp: get_def upd_def is_chunk_def split: option.splits)

lemma chunk_of_chunk_update:
  "chunk_of (chunk_update p g s) q
     = (if q = p \<and> is_chunk (chunks s) p then g (chunk_of s p) else chunk_of s q)"
  by (simp add: chunk_of_def chunk_update_def get_upd)

lemma is_chunk_upd [simp]: "is_chunk (upd cl p g) q = is_chunk cl q"
  by (auto simp: is_chunk_def upd_def split: option.splits)

lemma frm_chunk_update [simp]: "frm (chunk_update p g s) = frm s"
  by (simp add: chunk_update_def)

lemma warnings_chunk_update [simp]: "warnings (chunk_update p g s) = warnings s"
  by (simp add: chunk_update_def)

lemma chunks_chunk_update: "chunks (chunk_update p g s) = upd (chunks s) p g"
  by (simp add: chunk_update_def)

lemma not_chunk_null: "\<not> is_chunk (chunks s) p \<Longrightarrow> chunk_of s p = null_chunk"
  by (auto simp: is_chunk_def chunk_of_def get_def split: option.splits)

lemma pc_mark_start_facts:
  "\<exists>s'. pc_mark_start pc s = Return None s'
        \<and> tos (frm s') = tos (frm s) \<and> below (frm s') = below (frm s)
        \<and> sparen_count (frm s') = sparen_count (frm s)
        \<and> Type (chunk_of s' q) = Type (chunk_of s q)
        \<and> TestFlags (chunk_of s' q) PCF_IN_PREPROC = TestFlags (chunk_of s q) PCF_IN_PREPROC
        \<and> warnings s' = warnings s"
  by (simp add: pc_mark_start_def Let_def chunk_of_def chunks_chunk_update get_upd TestFlags_def)

lemma pc_mark_sparen_facts:
  "\<exists>s'. pc_mark_sparen pc s = Return None s'
        \<and> frm s' = frm s
        \<and> Type (chunk_of s' q) = Type (chunk_of s q)
        \<and> TestFlags (chunk_of s' q) PCF_IN_PREPROC = TestFlags (chunk_of s q) PCF_IN_PREPROC
        \<and> warnings s' = warnings s"
  by (simp add: pc_mark_sparen_def Let_def chunk_of_def chunks_chunk_update get_upd TestFlags_def)

section \<open>The statement \<open>do { x; } while (y);\<close>\<close>

text \<open>
  Claim C7. For the token stream of \<open>do { x; } while (y);\<close> the pass returns, and afterwards
  the \<open>while\<close> chunk has type \<open>CT_WHILE_OF_DO\<close>, its opening parenthesis has type
  \<open>CT_SPAREN_OPEN\<close> and the closing one \<open>CT_SPAREN_CLOSE\<close>, and the trailing semicolon has
  parent type \<open>CT_WHILE_OF_DO\<close>. The theorem lists the type and the parent type of every
  chunk after the run; no chunk is added.
\<close>

theorem do_while_reclassified:
  "types_of (brace_cleanup 11 c_env do_while) =
     [(CT_DO, CT_NONE), (CT_BRACE_OPEN, CT_DO), (CT_WORD, CT_NONE), (CT_SEMICOLON, CT_NONE),
      (CT_BRACE_CLOSE, CT_DO), (CT_WHILE_OF_DO, CT_NONE), (CT_SPAREN_OPEN, CT_WHILE_OF_DO),
      (CT_WORD, CT_NONE), (CT_SPAREN_CLOSE, CT_WHILE_OF_DO), (CT_SEMICOLON, CT_WHILE_OF_DO)]"
  by code_simp

theorem do_while_reclassified_witness:
  "types_of (brace_cleanup 11 c_env do_while) ! 5 = (CT_WHILE_OF_DO, CT_NONE)
   \<and> types_of (brace_cleanup 11 c_env do_while) ! 6 = (CT_SPAREN_OPEN, CT_WHILE_OF_DO)
   \<and> types_of (brace_cleanup 11 c_env do_while) ! 8 = (CT_SPAREN_CLOSE, CT_WHILE_OF_DO)
   \<and> types_of (brace_cleanup 11 c_env do_while) ! 9 = (CT_SEMICOLON, CT_WHILE_OF_DO)"
  by (simp add: do_while_reclassified)

section \<open>Termination of \<open>close_statement\<close>\<close>

lemma call_measure:
  assumes "close_statement_handle_complex_close_rel callee caller"
  shows "2 * call_stack_depth callee + (if isl callee then 1 else 0)
         < 2 * call_stack_depth caller + (if isl caller then 1 else (0::nat))"
  using assms
  by (cases rule: close_statement_handle_complex_close_rel.cases)
     (auto simp: call_stack_depth_def frame_size_def below_close_vbrace_before
        dest!: pop_SomeD split: if_splits)

lemma call_edge:
  assumes "close_statement_handle_complex_close_rel callee caller"
  shows "call_stack_depth callee \<le> call_stack_depth caller
         \<and> (isl callee \<longrightarrow> call_stack_depth callee < call_stack_depth caller)"
  using assms
  by (cases rule: close_statement_handle_complex_close_rel.cases)
     (auto simp: call_stack_depth_def frame_size_def below_close_vbrace_before
        dest!: pop_SomeD split: if_splits)

lemma call_chain:
  "(close_statement_handle_complex_close_rel ^^ n) callee caller \<Longrightarrow>
     n + (2 * call_stack_depth callee + (if isl callee then 1 else 0))
       \<le> 2 * call_stack_depth caller + (if isl caller then 1 else (0::nat))"
proof (induction n arbitrary: caller)
  case 0
  then show ?case by simp
next
  case (Suc n)
  then obtain mid where m: "(close_statement_handle_complex_close_rel ^^ n) callee mid"
    and e: "close_statement_handle_complex_close_rel mid caller"
    by auto
  from Suc.IH[OF m] call_measure[OF e] show ?case by simp
qed

lemma call_stack_depth_pos: "0 < call_stack_depth c"
  by (auto simp: call_stack_depth_def frame_size_def split: sum.splits)

text \<open>
  Claim C8. \<open>close_statement\<close> terminates on every call: every argument is in the domain
  of the recursion. \<open>close_statement_handle_complex_close_rel callee caller\<close> is the call
  relation of the two functions: the body of \<open>caller\<close> (a call of \<open>close_statement\<close>,
  \<open>Inl\<close>, or of \<open>handle_complex_close\<close>, \<open>Inr\<close>) makes the call \<open>callee\<close>. No call is made
  with a deeper stack than its caller has, and every call of \<open>close_statement\<close>, from
  itself or from \<open>handle_complex_close\<close>, is made with a stack that is at least one entry
  shorter. So a chain of \<open>n\<close> nested calls that starts in \<open>close_statement\<close> has
  \<open>n < 2 * frm.size()\<close>: the depth of the recursion is bounded by the depth of the stack.
\<close>

theorem close_statement_terminates:
  "close_statement_handle_complex_close_dom (Inl (env, s, pc))
   \<and> (\<forall>callee caller. close_statement_handle_complex_close_rel callee caller \<longrightarrow>
         call_stack_depth callee \<le> call_stack_depth caller
         \<and> (isl callee \<longrightarrow> call_stack_depth callee < call_stack_depth caller))
   \<and> (\<forall>n callee. (close_statement_handle_complex_close_rel ^^ n) callee (Inl (env, s, pc)) \<longrightarrow>
         n < 2 * frame_size (frm s))"
proof (intro conjI allI impI)
  have "wfp close_statement_handle_complex_close_rel"
    by (rule wfp_if_convertible_to_nat
          [where f = "\<lambda>c. 2 * call_stack_depth c + (if isl c then 1 else 0)"])
       (rule call_measure)
  then show "close_statement_handle_complex_close_dom (Inl (env, s, pc))"
    by (simp add: wfp_iff_accp)
next
  fix callee caller
  assume "close_statement_handle_complex_close_rel callee caller"
  then show "call_stack_depth callee \<le> call_stack_depth caller"
    using call_edge by blast
next
  fix callee caller
  assume "close_statement_handle_complex_close_rel callee caller" "isl callee"
  then show "call_stack_depth callee < call_stack_depth caller"
    using call_edge by blast
next
  fix n callee
  assume "(close_statement_handle_complex_close_rel ^^ n) callee (Inl (env, s, pc))"
  from call_chain[OF this] call_stack_depth_pos[of callee]
  show "n < 2 * frame_size (frm s)"
    by (simp add: call_stack_depth_def split: if_splits)
qed

theorem close_statement_terminates_witness:
  "\<exists>callee. close_statement_handle_complex_close_rel callee
               (Inl (c_env, state_at 5 c_env if_y_z, Some 5))
     \<and> isl callee
     \<and> call_stack_depth callee < call_stack_depth (Inl (c_env, state_at 5 c_env if_y_z, Some 5))"
proof -
  let ?s = "state_at 5 c_env if_y_z"
  have t: "type (top (frm ?s)) = CT_VBRACE_OPEN" by code_simp
  have c: "\<not> consumed (braceState ?s)" by code_simp
  have "pop (frm (close_vbrace_before c_env ?s (Some 5))) \<noteq> None" by code_simp
  then obtain f where p: "pop (frm (close_vbrace_before c_env ?s (Some 5))) = Some f" by blast
  let ?callee = "Inl (c_env, set_levels (Some 5)
                               ((close_vbrace_before c_env ?s (Some 5))\<lparr>frm := f\<rparr>), Some 5)"
  have e: "close_statement_handle_complex_close_rel ?callee (Inl (c_env, ?s, Some 5))"
    by (rule close_statement_handle_complex_close_rel.intros(1)[where x = ?s])
       (simp_all add: c t p)
  from close_statement_terminates[of c_env ?s "Some 5", THEN conjunct2, THEN conjunct1,
         rule_format, OF e]
  have "call_stack_depth ?callee < call_stack_depth (Inl (c_env, ?s, Some 5))" by simp
  with e show ?thesis by (intro exI[of _ ?callee]) simp
qed

section \<open>Closers that do not match\<close>

lemma close_retype_unmatched: "unmatched_closer s pc \<Longrightarrow> close_retype pc s = s"
  by (auto simp: unmatched_closer_def close_retype_def)

lemma pc_close_unmatched:
  "unmatched_closer s pc \<Longrightarrow> pc_close env pc s = close_mismatch pc s"
  by (simp add: pc_close_def close_retype_unmatched Let_def) (simp add: unmatched_closer_def)

lemma sentinel_unmatched:
  "is_closer (Type (chunk_of s pc)) \<Longrightarrow>
   type (top (frm s)) = CT_EOF \<or> type (top (frm s)) = CT_PP_DEFINE \<Longrightarrow>
   unmatched_closer s pc"
  by (auto simp: unmatched_closer_def)



text \<open>
  Claim C9. In the same step, a closer that is not flagged \<open>PCF_IN_PREPROC\<close> does not end
  the run when the top of the stack is the \<open>CT_EOF\<close> sentinel or the \<open>CT_PP_DEFINE\<close>
  sentinel: the warnings are logged (one on \<open>CT_EOF\<close>, two on \<open>CT_PP_DEFINE\<close>), nothing is
  popped, and the step falls through to the next one. For an unmatched closer the step ends
  the run exactly when the top is neither of the two sentinels.
\<close>

theorem sentinel_mismatch_continues:
  assumes "is_closer (Type (chunk_of s pc))" and "\<not> TestFlags (chunk_of s pc) PCF_IN_PREPROC"
  shows "(type (top (frm s)) = CT_EOF \<longrightarrow>
            pc_close env pc s = Return None (LOG_WARN WARN_close_mismatch s))
       \<and> (type (top (frm s)) = CT_PP_DEFINE \<longrightarrow>
            pc_close env pc s
              = Return None (LOG_WARN WARN_expected_close (LOG_WARN WARN_close_mismatch s)))
       \<and> (unmatched_closer s pc \<longrightarrow>
            ((\<exists>a s'. pc_close env pc s = Abort a s')
               \<longleftrightarrow> type (top (frm s)) \<noteq> CT_EOF \<and> type (top (frm s)) \<noteq> CT_PP_DEFINE))"
  using assms
  by (auto simp: pc_close_unmatched sentinel_unmatched close_mismatch_def Let_def)

theorem sentinel_mismatch_continues_witness:
  "is_closer (Type (chunk_of (initial_state lone_close) (Some 0)))
   \<and> \<not> TestFlags (chunk_of (initial_state lone_close) (Some 0)) PCF_IN_PREPROC
   \<and> type (top (frm (initial_state lone_close))) = CT_EOF
   \<and> pc_close c_env (Some 0) (initial_state lone_close)
       = Return None (LOG_WARN WARN_close_mismatch (initial_state lone_close))
   \<and> outcome (brace_cleanup 2 c_env lone_close) = Some (None, [WARN_close_mismatch])"
proof -
  have h1: "is_closer (Type (chunk_of (initial_state lone_close) (Some 0)))" by code_simp
  have h2: "\<not> TestFlags (chunk_of (initial_state lone_close) (Some 0)) PCF_IN_PREPROC"
    by code_simp
  have h3: "type (top (frm (initial_state lone_close))) = CT_EOF" by code_simp
  have h4: "outcome (brace_cleanup 2 c_env lone_close) = Some (None, [WARN_close_mismatch])"
    by code_simp
  from sentinel_mismatch_continues[OF h1 h2, of c_env] h1 h2 h3 h4 show ?thesis by blast
qed

text \<open>
  Claim C1, as stated, fails on a closer that meets a sentinel: a file that is a single
  \<open>}\<close> has an unmatched closer outside the preprocessor on the \<open>CT_EOF\<close> sentinel, and the
  pass returns after one warning.
\<close>

theorem lone_close_returns:
  "unmatched_closer (initial_state lone_close) (Some 0)
   \<and> \<not> TestFlags (chunk_of (initial_state lone_close) (Some 0)) PCF_IN_PREPROC
   \<and> outcome (brace_cleanup 2 c_env lone_close) = Some (None, [WARN_close_mismatch])"
  by code_simp

text \<open>
  On the two tokens \<open>( }\<close> the run ends with \<open>exit(EXIT_FAILURE)\<close>, that is with code 1,
  where the other exits of the pass use \<open>EX_SOFTWARE\<close>, code 70.
\<close>

lemma paren_brace_exit_code:
  "outcome (brace_cleanup 3 c_env paren_brace)
     = Some (Some (EXIT 1), [WARN_close_mismatch, WARN_expected_close, WARN_unexpected_close])"
  by code_simp

text \<open>
  Claim C1, amended. When the cleanup of a chunk reaches the open/close check in a state
  \<open>s1\<close> where the chunk is an unmatched closer, is not flagged \<open>PCF_IN_PREPROC\<close>, and the top
  of the stack is neither the \<open>CT_EOF\<close> nor the \<open>CT_PP_DEFINE\<close> sentinel, \<open>parse_cleanup\<close>
  logs its three warnings and ends the run with an exit.
\<close>

theorem real_opener_mismatch_aborts:
  assumes "run_steps [pc_mark_start pc, pc_mark_sparen pc, pc_complex env pc,
                      pc_vbrace_close env pc] s = Return None s1"
    and "unmatched_closer s1 pc"
    and "\<not> TestFlags (chunk_of s1 pc) PCF_IN_PREPROC"
    and "type (top (frm s1)) \<noteq> CT_EOF" and "type (top (frm s1)) \<noteq> CT_PP_DEFINE"
  shows "\<exists>code. parse_cleanup env s pc
           = Abort (EXIT code)
               (LOG_WARN WARN_unexpected_close
                  (LOG_WARN WARN_expected_close (LOG_WARN WARN_close_mismatch s1)))"
proof -
  have c: "pc_close env pc s1
           = Abort (EXIT EXIT_FAILURE)
               (LOG_WARN WARN_unexpected_close
                  (LOG_WARN WARN_expected_close (LOG_WARN WARN_close_mismatch s1)))"
    using assms(2-) by (simp add: pc_close_unmatched close_mismatch_def Let_def)
  have "[pc_mark_start pc, pc_mark_sparen pc, pc_complex env pc, pc_vbrace_close env pc,
         pc_close env pc, pc_wod_semi env pc, pc_open env pc, pc_switch pc, pc_case pc,
         pc_break pc, pc_push_complex pc, pc_stmt_reset pc, pc_expr_reset pc]
      = [pc_mark_start pc, pc_mark_sparen pc, pc_complex env pc, pc_vbrace_close env pc]
        @ [pc_close env pc, pc_wod_semi env pc, pc_open env pc, pc_switch pc, pc_case pc,
           pc_break pc, pc_push_complex pc, pc_stmt_reset pc, pc_expr_reset pc]"
    by simp
  then show ?thesis
    unfolding parse_cleanup_def
    by (simp only: run_steps_append assms(1)) (simp add: c)
qed

theorem real_opener_mismatch_aborts_witness:
  "run_steps [pc_mark_start (Some 1), pc_mark_sparen (Some 1), pc_complex c_env (Some 1),
              pc_vbrace_close c_env (Some 1)] (state_at 1 c_env paren_brace)
     = Return None
         (result_state
            (run_steps [pc_mark_start (Some 1), pc_mark_sparen (Some 1),
                        pc_complex c_env (Some 1), pc_vbrace_close c_env (Some 1)]
               (state_at 1 c_env paren_brace)))
   \<and> unmatched_closer
         (result_state
            (run_steps [pc_mark_start (Some 1), pc_mark_sparen (Some 1),
                        pc_complex c_env (Some 1), pc_vbrace_close c_env (Some 1)]
               (state_at 1 c_env paren_brace))) (Some 1)
   \<and> type (top (frm (state_at 1 c_env paren_brace))) = CT_PAREN_OPEN
   \<and> (\<exists>code s'. parse_cleanup c_env (state_at 1 c_env paren_brace) (Some 1)
                   = Abort (EXIT code) s')"
proof -
  let ?s = "state_at 1 c_env paren_brace"
  let ?s1 = "result_state
               (run_steps [pc_mark_start (Some 1), pc_mark_sparen (Some 1),
                           pc_complex c_env (Some 1), pc_vbrace_close c_env (Some 1)] ?s)"
  have h1: "run_steps [pc_mark_start (Some 1), pc_mark_sparen (Some 1),
                       pc_complex c_env (Some 1), pc_vbrace_close c_env (Some 1)] ?s
              = Return None ?s1"
    by code_simp
  have h2: "unmatched_closer ?s1 (Some 1)" by code_simp
  have h3: "\<not> TestFlags (chunk_of ?s1 (Some 1)) PCF_IN_PREPROC" by code_simp
  have h4: "type (top (frm ?s1)) \<noteq> CT_EOF" by code_simp
  have h5: "type (top (frm ?s1)) \<noteq> CT_PP_DEFINE" by code_simp
  have h6: "type (top (frm ?s)) = CT_PAREN_OPEN" by code_simp
  from real_opener_mismatch_aborts[OF h1 h2 h3 h4 h5] h1 h2 h6 show ?thesis by blast
qed

section \<open>The frame of a \<open>#define\<close> body\<close>

lemma define_frame_eq: "define_frame cl = define_body_frame"
  by (simp add: define_frame_def define_body_frame_def push_def new_frame_def get_def
        null_chunk_def Let_def)

text \<open>
  Claim C6. On a \<open>#define\<close> directive (the chunk after the \<open>CT_PREPROC\<close> chunk has type
  \<open>CT_PP_DEFINE\<close>) \<open>preproc_start\<close> pushes the current frame onto the frame list and makes
  the current frame a new one with level 1, brace level 1 and an entry of type
  \<open>CT_PP_DEFINE\<close> above the sentinel. On the first chunk that is not flagged
  \<open>PCF_IN_PREPROC\<close> while \<open>in_preproc\<close> is \<open>CT_PP_DEFINE\<close>, the loop of \<open>brace_cleanup\<close>
  takes the saved frame back, and logs the warning about unbalanced \<open>#define\<close> block braces
  exactly when the option \<open>pp_warn_unbalanced_if\<close> is on and the brace level is not 1.
\<close>

theorem define_frame_protocol:
  "(GetNextNcNnl (chunks s) pc \<noteq> None
      \<and> Type (chunk_of s (GetNextNcNnl (chunks s) pc)) = CT_PP_DEFINE \<longrightarrow>
      preproc_start env s pc =
        (s\<lparr>braceState := (braceState s)\<lparr>in_preproc := CT_PP_DEFINE,
                                        frames := frames (braceState s) @ [frm s]\<rparr>,
           frm := define_body_frame\<rparr>,
         word_of_int (pp_level (braceState s))))
   \<and> (in_preproc (braceState s) = CT_PP_DEFINE \<and> \<not> TestFlags (chunk_of s pc) PCF_IN_PREPROC
        \<and> frames (braceState s) \<noteq> [] \<longrightarrow>
      leave_preproc env pc s =
        s\<lparr>frm := last (frames (braceState s)),
          braceState := (braceState s)\<lparr>frames := butlast (frames (braceState s)),
                                       in_preproc := CT_NONE\<rparr>,
          warnings := warnings s
             @ (if pp_warn_unbalanced_if env \<and> brace_level (frm s) \<noteq> 1
                then [WARN_unbalanced_define (brace_level (frm s))] else [])\<rparr>)"
  by (auto simp: preproc_start_def leave_preproc_def Let_def define_frame_eq fl_push_def
        fl_pop_def LOG_WARN_def)

theorem define_frame_protocol_witness:
  "GetNextNcNnl (chunks (initial_state define_close)) (Some 0) \<noteq> None
   \<and> Type (chunk_of (initial_state define_close)
             (GetNextNcNnl (chunks (initial_state define_close)) (Some 0))) = CT_PP_DEFINE
   \<and> frm (fst (preproc_start c_env (initial_state define_close) (Some 0))) = define_body_frame
   \<and> frames (braceState (fst (preproc_start c_env (initial_state define_close) (Some 0))))
       = [new_frame]
   \<and> in_preproc (braceState (state_at 4 c_env define_close)) = CT_PP_DEFINE
   \<and> \<not> TestFlags (chunk_of (state_at 4 c_env define_close) (Some 4)) PCF_IN_PREPROC
   \<and> frames (braceState (state_at 4 c_env define_close)) \<noteq> []
   \<and> frm (leave_preproc c_env (Some 4) (state_at 4 c_env define_close)) = new_frame
   \<and> frames (braceState (leave_preproc c_env (Some 4) (state_at 4 c_env define_close))) = []"
proof -
  let ?s0 = "initial_state define_close" and ?s4 = "state_at 4 c_env define_close"
  have h1: "GetNextNcNnl (chunks ?s0) (Some 0) \<noteq> None" by code_simp
  have h2: "Type (chunk_of ?s0 (GetNextNcNnl (chunks ?s0) (Some 0))) = CT_PP_DEFINE"
    by code_simp
  have h3: "in_preproc (braceState ?s4) = CT_PP_DEFINE" by code_simp
  have h4: "\<not> TestFlags (chunk_of ?s4 (Some 4)) PCF_IN_PREPROC" by code_simp
  have h5: "frames (braceState ?s4) \<noteq> []" by code_simp
  have f0: "frm ?s0 = new_frame" "frames (braceState ?s0) = []"
    by (simp_all add: initial_state_def)
  have f4: "last (frames (braceState ?s4)) = new_frame" "butlast (frames (braceState ?s4)) = []"
    by code_simp+
  from define_frame_protocol[of ?s0 "Some 0" c_env, THEN conjunct1] h1 h2
  have a: "preproc_start c_env ?s0 (Some 0) =
        (?s0\<lparr>braceState := (braceState ?s0)\<lparr>in_preproc := CT_PP_DEFINE,
                                        frames := frames (braceState ?s0) @ [frm ?s0]\<rparr>,
           frm := define_body_frame\<rparr>,
         word_of_int (pp_level (braceState ?s0)))"
    by blast
  from define_frame_protocol[of ?s4 "Some 4" c_env, THEN conjunct2] h3 h4 h5
  have b: "leave_preproc c_env (Some 4) ?s4 =
        ?s4\<lparr>frm := last (frames (braceState ?s4)),
          braceState := (braceState ?s4)\<lparr>frames := butlast (frames (braceState ?s4)),
                                       in_preproc := CT_NONE\<rparr>,
          warnings := warnings ?s4
             @ (if pp_warn_unbalanced_if c_env \<and> brace_level (frm ?s4) \<noteq> 1
                then [WARN_unbalanced_define (brace_level (frm ?s4))] else [])\<rparr>"
    by blast
  show ?thesis
    using h1 h2 h3 h4 h5 by (simp add: a b f0 f4)
qed

section \<open>A complex statement without its parenthesis\<close>

lemma ccs_loops_skip:
  "stage (top (frm s)) \<noteq> ELSE \<Longrightarrow> ccs_else_loop env pc s = Return None s"
  "stage (top (frm s)) \<noteq> CATCH \<Longrightarrow> ccs_catch_loop env pc s = Return None s"
  by (simp_all add: ccs_else_loop.simps ccs_catch_loop.simps)

lemma ccs_paren1:
  assumes "stage (top (frm s)) = PAREN1"
    and "Type (chunk_of s pc) \<noteq> CT_PAREN_OPEN"
    and "\<not> ((type (top (frm s)) = CT_IF \<or> type (top (frm s)) = CT_ELSEIF)
            \<and> Type (chunk_of s pc) = CT_CONSTEXPR)"
  shows "check_complex_statements env s pc
           = pop_and_exit EX_SOFTWARE (LOG_WARN WARN_expected_paren s)"
  using assms
  by (auto simp: check_complex_statements_def ccs_op_paren1_def ccs_loops_skip ccs_elseif_def
        ccs_catch_when_def ccs_while_def ccs_vbrace_open_def ccs_constexpr_def
        ccs_verify_paren_def pop_and_exit_def split: option.splits)

text \<open>
  Claim C4, as stated, fails on \<open>if constexpr\<close>: after \<open>if\<close> the top of the stack is in
  the stage \<open>PAREN1\<close>, the next chunk is \<open>constexpr\<close> and not a \<open>CT_PAREN_OPEN\<close>, and the
  pass goes on and returns without a warning.
\<close>

theorem constexpr_after_if_accepted:
  "stage (top (frm (state_at 1 c_env if_constexpr))) = PAREN1
   \<and> Type (chunk_of (state_at 1 c_env if_constexpr) (Some 1)) = CT_CONSTEXPR
   \<and> outcome (brace_cleanup 10 c_env if_constexpr) = Some (None, [])"
  by code_simp

text \<open>
  Claim C4, amended. Whenever the top of the stack is in the stage \<open>PAREN1\<close> (and is an
  entry above the bottom of the stack, so that it can be popped) and the chunk is not a
  \<open>CT_PAREN_OPEN\<close>, nor a \<open>CT_AUTORELEASEPOOL\<close>, nor a \<open>CT_CONSTEXPR\<close> on a \<open>CT_IF\<close> or
  \<open>CT_ELSEIF\<close> entry, \<open>parse_cleanup\<close> logs the error \<open>Expected '('\<close>, pops the entry and
  ends the run with \<open>exit(EX_SOFTWARE)\<close>.
\<close>

theorem expected_paren_aborts:
  assumes "stage (top (frm s)) = PAREN1"
    and "Type (chunk_of s pc) \<noteq> CT_PAREN_OPEN"
    and "Type (chunk_of s pc) \<noteq> CT_AUTORELEASEPOOL"
    and "\<not> ((type (top (frm s)) = CT_IF \<or> type (top (frm s)) = CT_ELSEIF)
            \<and> Type (chunk_of s pc) = CT_CONSTEXPR)"
    and "pop (frm s) = Some f"
  shows "\<exists>s'. parse_cleanup env s pc = Abort (EXIT EX_SOFTWARE) s'
             \<and> warnings s' = warnings s @ [WARN_expected_paren]
             \<and> tos (frm s') = tos f \<and> below (frm s') = below f"
proof -
  obtain sa where a: "pc_mark_start pc s = Return None sa"
    "tos (frm sa) = tos (frm s)" "below (frm sa) = below (frm s)"
    "Type (chunk_of sa pc) = Type (chunk_of s pc)" "warnings sa = warnings s"
    using pc_mark_start_facts[of pc s pc] by blast
  obtain sb where b: "pc_mark_sparen pc sa = Return None sb"
    "frm sb = frm sa" "Type (chunk_of sb pc) = Type (chunk_of sa pc)" "warnings sb = warnings sa"
    using pc_mark_sparen_facts[of pc sa pc] by blast
  have st: "stage (top (frm sb)) = PAREN1" "type (top (frm sb)) = type (top (frm s))"
    using assms(1) a b by (simp_all add: top_def)
  from assms(5) obtain f' where p: "pop (frm sb) = Some f'" "tos f' = tos f" "below f' = below f"
    using a b by (auto simp: pop_def split: list.splits)
  have c: "check_complex_statements env sb pc
             = Abort (EXIT EX_SOFTWARE) ((LOG_WARN WARN_expected_paren sb)\<lparr>frm := f'\<rparr>)"
    using ccs_paren1[of sb pc env] st assms(2,4) a b p
    by (simp add: pop_and_exit_def)
  show ?thesis
    using assms(3) a b st p
    by (simp add: parse_cleanup_def c pc_complex_def LOG_WARN_def)
qed


theorem expected_paren_aborts_witness:
  "stage (top (frm (state_at 1 c_env if_word))) = PAREN1
   \<and> Type (chunk_of (state_at 1 c_env if_word) (Some 1)) = CT_WORD
   \<and> pop (frm (state_at 1 c_env if_word)) \<noteq> None
   \<and> (\<exists>s'. parse_cleanup c_env (state_at 1 c_env if_word) (Some 1) = Abort (EXIT EX_SOFTWARE) s'
            \<and> warnings s' = [WARN_expected_paren])
   \<and> outcome (brace_cleanup 3 c_env if_word) = Some (Some (EXIT 70), [WARN_expected_paren])"
proof -
  let ?s = "state_at 1 c_env if_word"
  have h1: "stage (top (frm ?s)) = PAREN1" by code_simp
  have h2: "Type (chunk_of ?s (Some 1)) = CT_WORD" by code_simp
  have h5: "pop (frm ?s) \<noteq> None" by code_simp
  then obtain f where f: "pop (frm ?s) = Some f" by blast
  have w: "warnings ?s = []" by code_simp
  have o: "outcome (brace_cleanup 3 c_env if_word) = Some (Some (EXIT 70), [WARN_expected_paren])"
    by code_simp
  from expected_paren_aborts[of ?s "Some 1" f c_env, OF h1 _ _ _ f] h2
  have "\<exists>s'. parse_cleanup c_env ?s (Some 1) = Abort (EXIT EX_SOFTWARE) s'
            \<and> warnings s' = warnings ?s @ [WARN_expected_paren]"
    by auto
  then have "\<exists>s'. parse_cleanup c_env ?s (Some 1) = Abort (EXIT EX_SOFTWARE) s'
            \<and> warnings s' = [WARN_expected_paren]"
    unfolding w by simp
  with h1 h2 h5 o show ?thesis by blast
qed

section \<open>The flags \<open>PCF_IN_SPAREN\<close> and \<open>PCF_IN_FOR\<close>\<close>





section \<open>The virtual brace open\<close>





lemma distinct_link_after:
  "distinct ys \<Longrightarrow> n \<notin> set ys \<Longrightarrow> distinct (link_after a n ys)"
proof (induction ys)
  case Nil
  then show ?case by simp
next
  case (Cons y ys)
  have "set (link_after a n ys) \<subseteq> insert n (set ys)"
    by (induction ys) auto
  with Cons show ?case by auto
qed






lemma order_upd [simp]: "order (upd cl p g) = order cl"
  by (simp add: upd_def split: option.splits)

lemma length_heap_upd [simp]: "length (heap (upd cl p g)) = length (heap cl)"
  by (simp add: upd_def split: option.splits)










end
